theory Spec2Isabelle
  imports Main "HOL-Library.Finite_Map" "HOL-Library.Char_ord" "HOL-Library.List_Lexorder"
begin

declare fmfilter_cong [cong del]

section \<open>Go strings\<close>

text \<open>
  A Go string is a sequence of bytes; it is modelled as a \<^typ>\<open>string\<close> (a list of 8-bit
  characters).  The order on strings is the bytewise lexicographic order, which is the
  order of Go's \<^verbatim>\<open><\<close> on strings and of \<^verbatim>\<open>sort.Strings\<close>.
\<close>

type_synonym bytes = string

definition byte :: "char \<Rightarrow> nat" where
  "byte c = of_char c"

subsection \<open>unicode/utf8\<close>

definition RuneError :: nat where
  "RuneError = 0xFFFD"

definition cont :: "char \<Rightarrow> bool" where
  "cont c = (0x80 \<le> byte c \<and> byte c \<le> 0xBF)"

text \<open>
  \<^verbatim>\<open>utf8.DecodeRuneInString\<close>: the first rune of the string and its width in bytes.
  An empty string gives \<open>(RuneError, 0)\<close>, an invalid or short encoding
  \<open>(RuneError, 1)\<close>.  The ranges of the second byte are those of Go's
  \<^verbatim>\<open>acceptRanges\<close> table (no overlong forms, no surrogates, nothing above U+10FFFF).
\<close>

fun decodeRune :: "string \<Rightarrow> nat \<times> nat" where
  "decodeRune [] = (RuneError, 0)"
| "decodeRune (c0 # cs) =
    (let b0 = byte c0 in
     if b0 < 0x80 then (b0, 1)
     else if 0xC2 \<le> b0 \<and> b0 \<le> 0xDF then
       (case cs of
          c1 # _ \<Rightarrow>
            if cont c1 then ((b0 mod 0x20) * 0x40 + byte c1 mod 0x40, 2) else (RuneError, 1)
        | _ \<Rightarrow> (RuneError, 1))
     else if 0xE0 \<le> b0 \<and> b0 \<le> 0xEF then
       (case cs of
          c1 # c2 # _ \<Rightarrow>
            if (if b0 = 0xE0 then 0xA0 else 0x80) \<le> byte c1
               \<and> byte c1 \<le> (if b0 = 0xED then 0x9F else 0xBF) \<and> cont c2
            then ((b0 mod 0x10) * 0x1000 + (byte c1 mod 0x40) * 0x40 + byte c2 mod 0x40, 3)
            else (RuneError, 1)
        | _ \<Rightarrow> (RuneError, 1))
     else if 0xF0 \<le> b0 \<and> b0 \<le> 0xF4 then
       (case cs of
          c1 # c2 # c3 # _ \<Rightarrow>
            if (if b0 = 0xF0 then 0x90 else 0x80) \<le> byte c1
               \<and> byte c1 \<le> (if b0 = 0xF4 then 0x8F else 0xBF) \<and> cont c2 \<and> cont c3
            then ((b0 mod 0x08) * 0x40000 + (byte c1 mod 0x40) * 0x1000
                   + (byte c2 mod 0x40) * 0x40 + byte c3 mod 0x40, 4)
            else (RuneError, 1)
        | _ \<Rightarrow> (RuneError, 1))
     else (RuneError, 1))"

text \<open>
  \<^verbatim>\<open>utf8.DecodeLastRuneInString\<close>: it steps back from the end over at most three
  bytes to the nearest byte that can start a rune, decodes from there, and accepts the
  rune only when its encoding reaches the end of the string exactly.
\<close>

definition RuneStart :: "char \<Rightarrow> bool" where
  "RuneStart c = (\<not> cont c)"

definition lastRuneLen :: "string \<Rightarrow> nat" where
  "lastRuneLen s =
    (let n = length s in
     if 2 \<le> n \<and> RuneStart (s ! (n - 2)) then 2
     else if 3 \<le> n \<and> RuneStart (s ! (n - 3)) then 3
     else if 4 \<le> n \<and> RuneStart (s ! (n - 4)) then 4
     else min n 5)"

definition decodeLastRune :: "string \<Rightarrow> nat \<times> nat" where
  "decodeLastRune s =
    (if s = [] then (RuneError, 0)
     else if byte (last s) < 0x80 then (byte (last s), 1)
     else
       (let k = lastRuneLen s; (r, size) = decodeRune (drop (length s - k) s) in
        if size \<noteq> k then (RuneError, 1) else (r, size)))"

subsection \<open>unicode\<close>

text \<open>\<^verbatim>\<open>unicode.IsSpace\<close>: the code points with Unicode's White_Space property.\<close>

definition isSpace :: "nat \<Rightarrow> bool" where
  "isSpace r =
    ((0x09 \<le> r \<and> r \<le> 0x0D) \<or> r = 0x20 \<or> r = 0x85 \<or> r = 0xA0 \<or> r = 0x1680
     \<or> (0x2000 \<le> r \<and> r \<le> 0x200A) \<or> r = 0x2028 \<or> r = 0x2029 \<or> r = 0x202F
     \<or> r = 0x205F \<or> r = 0x3000)"

text \<open>
  Simple case folding as \<^verbatim>\<open>strings.EqualFold\<close> applies it to two runes.  Of Unicode's
  folding orbits only those with an ASCII member are modelled: the two cases of each
  ASCII letter, and the orbits \<open>K, k, U+212A\<close> and \<open>S, s, U+017F\<close>.  The result is
  the one of Go whenever one of the two runes is ASCII, which is the case for every rune
  compared with a rune of the token \<^verbatim>\<open>no-store\<close>.
\<close>

definition foldEq :: "nat \<Rightarrow> nat \<Rightarrow> bool" where
  "foldEq a b =
    (let sr = min a b; tr = max a b in
     if tr = sr then True
     else if tr < 0x80 then 0x41 \<le> sr \<and> sr \<le> 0x5A \<and> tr = sr + 0x20
     else ((sr = 0x4B \<or> sr = 0x6B) \<and> tr = 0x212A) \<or> ((sr = 0x53 \<or> sr = 0x73) \<and> tr = 0x17F))"

subsection \<open>strings\<close>

definition HasPrefix :: "string \<Rightarrow> string \<Rightarrow> bool" where
  "HasPrefix s p = (take (length p) s = p)"

definition HasSuffix :: "string \<Rightarrow> string \<Rightarrow> bool" where
  "HasSuffix s p = (length p \<le> length s \<and> drop (length s - length p) s = p)"

text \<open>
  \<^verbatim>\<open>strings.Split(s, sep)\<close> for a separator of one byte: the pieces between the
  separators, so that a string with \<open>n\<close> separators gives \<open>n + 1\<close> pieces and the empty
  string gives one empty piece.
\<close>

fun Split :: "string \<Rightarrow> char \<Rightarrow> string list" where
  "Split [] sep = [[]]"
| "Split (c # cs) sep =
    (if c = sep then [] # Split cs sep
     else (case Split cs sep of [] \<Rightarrow> [[c]] | p # ps \<Rightarrow> (c # p) # ps))"

fun Join :: "string list \<Rightarrow> string \<Rightarrow> string" where
  "Join [] sep = []"
| "Join [x] sep = x"
| "Join (x # y # ys) sep = x @ sep @ Join (y # ys) sep"

text \<open>\<^verbatim>\<open>strings.TrimSpace\<close>: leading and trailing white space runes are removed.\<close>

fun TrimLeftSpace :: "string \<Rightarrow> string" where
  "TrimLeftSpace [] = []"
| "TrimLeftSpace (c # cs) =
    (if isSpace (fst (decodeRune (c # cs)))
     then TrimLeftSpace (drop (snd (decodeRune (c # cs)) - 1) cs)
     else c # cs)"

function TrimRightSpace :: "string \<Rightarrow> string" where
  "TrimRightSpace s =
    (if s \<noteq> [] \<and> isSpace (fst (decodeLastRune s))
     then TrimRightSpace (take (length s - max 1 (snd (decodeLastRune s))) s)
     else s)"
  by pat_completeness auto
termination
  by (relation "measure length") auto

declare TrimRightSpace.simps [simp del]

definition TrimSpace :: "string \<Rightarrow> string" where
  "TrimSpace s = TrimRightSpace (TrimLeftSpace s)"

text \<open>
  \<^verbatim>\<open>strings.EqualFold\<close>: the two strings are compared rune by rune under simple case
  folding; an invalid byte decodes to \<open>RuneError\<close> on either side.
\<close>

function EqualFold :: "string \<Rightarrow> string \<Rightarrow> bool" where
  "EqualFold s t =
    (if s = [] then t = []
     else if t = [] then False
     else if foldEq (fst (decodeRune s)) (fst (decodeRune t))
       then EqualFold (drop (max 1 (snd (decodeRune s))) s) (drop (max 1 (snd (decodeRune t))) t)
       else False)"
  by pat_completeness auto
termination
  by (relation "measure (\<lambda>(s, t). length s)") auto

declare EqualFold.simps [simp del]

section \<open>net/http headers\<close>

text \<open>
  \<^verbatim>\<open>http.Header\<close> is a Go map from header names to lists of values: a finite map.
  Its methods \<^verbatim>\<open>Get\<close>, \<^verbatim>\<open>Set\<close>, \<^verbatim>\<open>Add\<close> and \<^verbatim>\<open>Del\<close> canonicalise the name they are given
  (\<^verbatim>\<open>textproto.CanonicalMIMEHeaderKey\<close>); indexing the map does not.
\<close>

type_synonym header = "(string, string list) fmap"

definition isLower :: "char \<Rightarrow> bool" where
  "isLower c = (0x61 \<le> byte c \<and> byte c \<le> 0x7A)"

definition isUpper :: "char \<Rightarrow> bool" where
  "isUpper c = (0x41 \<le> byte c \<and> byte c \<le> 0x5A)"

definition isDigit :: "char \<Rightarrow> bool" where
  "isDigit c = (0x30 \<le> byte c \<and> byte c \<le> 0x39)"

definition validHeaderFieldByte :: "char \<Rightarrow> bool" where
  "validHeaderFieldByte c =
    (isLower c \<or> isUpper c \<or> isDigit c \<or> c \<in> set ''!#$%&*+-.^_`|~'' \<or> byte c = 0x27)"

text \<open>
  The two cases of an ASCII letter are \<open>0x20\<close> apart; the shift is written as a table.
\<close>

definition lowerLetters :: string where
  "lowerLetters = ''abcdefghijklmnopqrstuvwxyz''"

definition upperLetters :: string where
  "upperLetters = ''ABCDEFGHIJKLMNOPQRSTUVWXYZ''"

definition toUpper :: "char \<Rightarrow> char" where
  "toUpper c = (case map_of (zip lowerLetters upperLetters) c of Some u \<Rightarrow> u | None \<Rightarrow> c)"

definition toLower :: "char \<Rightarrow> char" where
  "toLower c = (case map_of (zip upperLetters lowerLetters) c of Some l \<Rightarrow> l | None \<Rightarrow> c)"

definition canonicalChar :: "bool \<Rightarrow> char \<Rightarrow> char" where
  "canonicalChar upper c =
    (if upper \<and> isLower c then toUpper c
     else if \<not> upper \<and> isUpper c then toLower c
     else c)"

fun canonicalise :: "bool \<Rightarrow> string \<Rightarrow> string" where
  "canonicalise upper [] = []"
| "canonicalise upper (c # cs) =
    canonicalChar upper c # canonicalise (canonicalChar upper c = CHR ''-'') cs"

text \<open>
  A name with a byte that is not a token character is returned unchanged; any other
  name gets an upper case first letter and an upper case letter after each hyphen, all
  other letters in lower case.
\<close>

definition CanonicalMIMEHeaderKey :: "string \<Rightarrow> string" where
  "CanonicalMIMEHeaderKey s = (if list_all validHeaderFieldByte s then canonicalise True s else s)"

definition Get :: "header \<Rightarrow> string \<Rightarrow> string" where
  "Get h key =
    (case fmlookup h (CanonicalMIMEHeaderKey key) of
       None \<Rightarrow> []
     | Some [] \<Rightarrow> []
     | Some (v # _) \<Rightarrow> v)"

definition Set :: "header \<Rightarrow> string \<Rightarrow> string \<Rightarrow> header" where
  "Set h key v = fmupd (CanonicalMIMEHeaderKey key) [v] h"

definition Values :: "header \<Rightarrow> string \<Rightarrow> string list" where
  "Values h k = (case fmlookup h k of None \<Rightarrow> [] | Some vs \<Rightarrow> vs)"

definition Add :: "header \<Rightarrow> string \<Rightarrow> string \<Rightarrow> header" where
  "Add h key v =
    (let k = CanonicalMIMEHeaderKey key in fmupd k (Values h k @ [v]) h)"

definition Del :: "header \<Rightarrow> string \<Rightarrow> header" where
  "Del h key = fmdrop (CanonicalMIMEHeaderKey key) h"

section \<open>The header sanitizer (package proxy)\<close>

definition hopHeaders :: "string list" where
  "hopHeaders =
    [''Connection'', ''Proxy-Connection'', ''Keep-Alive'', ''Proxy-Authenticate'',
     ''Proxy-Authorization'', ''TE'', ''Trailer'', ''Transfer-Encoding'', ''Upgrade'']"

definition delToken :: "header \<Rightarrow> string \<Rightarrow> header" where
  "delToken h f = (let name = TrimSpace f in if name \<noteq> [] then Del h name else h)"

definition filterHopByHop :: "header \<Rightarrow> header" where
  "filterHopByHop h =
    (let c = Get h ''Connection'';
         h1 = (if c \<noteq> [] then foldl delToken h (Split c CHR '','') else h)
     in foldl Del h1 hopHeaders)"

text \<open>The names a \<^verbatim>\<open>Connection\<close> value nominates, as \<^const>\<open>Del\<close> looks them up.\<close>

definition nominated :: "string \<Rightarrow> string set" where
  "nominated c =
    set (map (\<lambda>f. CanonicalMIMEHeaderKey (TrimSpace f))
          (filter (\<lambda>f. TrimSpace f \<noteq> []) (Split c CHR '','')))"

definition hopNames :: "string set" where
  "hopNames = CanonicalMIMEHeaderKey ` set hopHeaders"

section \<open>Requests and the cache key (package cache)\<close>

datatype error =
  ErrNilEntry | ErrURL | ErrJSON | ErrOS | ErrBody

text \<open>
  The fields of \<^verbatim>\<open>url.URL\<close> and of \<^verbatim>\<open>http.Request\<close>.  The fields the code never reads
  are kept, so that two requests can differ in them.
\<close>

record url =
  Scheme :: string
  Opaque :: string
  User :: string
  Host :: string
  Path :: string
  RawPath :: string
  ForceQuery :: bool
  RawQuery :: string
  Fragment :: string

record request =
  Method :: string
  URL :: url
  Proto :: string
  req_Header :: header
  req_Body :: bytes
  req_Host :: string
  RemoteAddr :: string

text \<open>
  The library functions whose code is not part of the repository and that are not
  modelled: \<^verbatim>\<open>url.Parse\<close>, \<^verbatim>\<open>(*URL).String\<close> and \<^verbatim>\<open>sha256.Sum256\<close>, which the cache key
  goes through; the director that \<^verbatim>\<open>httputil.NewSingleHostReverseProxy\<close> installs; and the
  order in which Go ranges over the names of a header map, which the language leaves
  open.  They are parameters of the model; every theorem holds for all of them.
\<close>

record golib =
  url_Parse :: "string \<Rightarrow> error + url"
  url_String :: "url \<Rightarrow> string"
  sha256_Sum256 :: "bytes \<Rightarrow> bytes"
  origDirector :: "url \<Rightarrow> request \<Rightarrow> request"
  mapOrder :: "header \<Rightarrow> string list"

definition singleJoiningSlash :: "string \<Rightarrow> string \<Rightarrow> string" where
  "singleJoiningSlash a b =
    (let aslash = HasSuffix a ''/''; bs = HasPrefix b ''/'' in
     if aslash \<and> bs then a @ drop 1 b
     else if \<not> aslash \<and> \<not> bs then a @ ''/'' @ b
     else a @ b)"

definition hexdigits :: string where
  "hexdigits = ''0123456789abcdef''"

definition hex_EncodeToString :: "bytes \<Rightarrow> string" where
  "hex_EncodeToString b =
    concat (map (\<lambda>c. [hexdigits ! (byte c div 16), hexdigits ! (byte c mod 16)]) b)"

text \<open>The URL as the origin sees it: the base with the joined path and the request's query.\<close>

definition resolved :: "url \<Rightarrow> request \<Rightarrow> url" where
  "resolved base r =
    base\<lparr>Path := singleJoiningSlash (Path base) (Path (URL r)), RawQuery := RawQuery (URL r)\<rparr>"

definition BuildCacheKey :: "golib \<Rightarrow> string \<Rightarrow> request \<Rightarrow> error + string" where
  "BuildCacheKey L originBase r =
    (case url_Parse L originBase of
       Inl err \<Rightarrow> Inl err
     | Inr base \<Rightarrow>
         (let u = resolved base r;
              accept = Get (req_Header r) ''Accept'';
              keyMaterial = Join [Method r, url_String L u, accept] [CHR 0x0A]
          in Inr (hex_EncodeToString (sha256_Sum256 L keyMaterial))))"

text \<open>
  The resolved origin URL of a request as a string: what the second component of the key
  material is.
\<close>

definition resolvedURL :: "golib \<Rightarrow> string \<Rightarrow> request \<Rightarrow> error + string" where
  "resolvedURL L originBase r =
    (case url_Parse L originBase of
       Inl err \<Rightarrow> Inl err
     | Inr base \<Rightarrow> Inr (url_String L (resolved base r)))"

definition CloneHeaders :: "header \<Rightarrow> header" where
  "CloneHeaders h = fmmap sort h"

section \<open>Entries and their JSON encoding\<close>

text \<open>
  \<^verbatim>\<open>Entry\<close> of package cache.  A nil map, slice or byte slice is not told apart from
  an empty one.  \<open>Status\<close> is a Go \<^verbatim>\<open>int\<close>: an integer of 64 bits, which
  \<open>int64\<close> says of a model value.
\<close>

record entry =
  Status :: int
  Header :: header
  Body :: bytes

definition int64 :: "int \<Rightarrow> bool" where
  "int64 i = (- (2 ^ 63) \<le> i \<and> i < 2 ^ 63)"

subsection \<open>strconv\<close>

definition digitChars :: string where
  "digitChars = ''0123456789''"

fun showNat :: "nat \<Rightarrow> string" where
  "showNat n = (if n < 10 then [digitChars ! n] else showNat (n div 10) @ [digitChars ! (n mod 10)])"

declare showNat.simps [simp del]

definition showInt :: "int \<Rightarrow> string" where
  "showInt i = (if i < 0 then CHR ''-'' # showNat (nat (- i)) else showNat (nat i))"

definition digitVal :: "char \<Rightarrow> nat" where
  "digitVal c = byte c - 0x30"

definition readNat :: "string \<Rightarrow> nat" where
  "readNat ds = foldl (\<lambda>n c. 10 * n + digitVal c) 0 ds"

subsection \<open>encoding/base64\<close>

definition encodeStd :: string where
  "encodeStd = upperLetters @ lowerLetters @ digitChars @ ''+/''"

definition b64 :: "nat \<Rightarrow> char" where
  "b64 n = encodeStd ! n"

text \<open>\<^verbatim>\<open>base64.StdEncoding.EncodeToString\<close>: three bytes give four characters, with padding.\<close>

fun base64_Encode :: "bytes \<Rightarrow> string" where
  "base64_Encode [] = []"
| "base64_Encode [a] =
    [b64 (byte a div 4), b64 ((byte a mod 4) * 16), CHR ''='', CHR ''='']"
| "base64_Encode [a, b] =
    [b64 (byte a div 4), b64 ((byte a mod 4) * 16 + byte b div 16),
     b64 ((byte b mod 16) * 4), CHR ''='']"
| "base64_Encode (a # b # c # rest) =
    [b64 (byte a div 4), b64 ((byte a mod 4) * 16 + byte b div 16),
     b64 ((byte b mod 16) * 4 + byte c div 64), b64 (byte c mod 64)] @ base64_Encode rest"

text \<open>The decoding table of the standard alphabet: the index of a character in it.\<close>

definition unb64 :: "char \<Rightarrow> nat option" where
  "unb64 c =
    (if isUpper c then Some (byte c - 0x41)
     else if isLower c then Some (byte c - 0x61 + 26)
     else if isDigit c then Some (byte c - 0x30 + 52)
     else if c = CHR ''+'' then Some 62
     else if c = CHR ''/'' then Some 63
     else None)"

definition quad3 :: "nat \<Rightarrow> nat \<Rightarrow> nat \<Rightarrow> nat \<Rightarrow> bytes" where
  "quad3 w x y z =
    [char_of (w * 4 + x div 16), char_of ((x mod 16) * 16 + y div 4), char_of ((y mod 4) * 64 + z)]"

text \<open>
  \<^verbatim>\<open>base64.StdEncoding.DecodeString\<close> on a text without line breaks (the decoder drops
  \<^verbatim>\<open>\r\<close> and \<^verbatim>\<open>\n\<close> first, see \<open>base64_Decode\<close>): groups of four characters,
  padding in the last group only; the bits of the last group that no byte takes are
  ignored.
\<close>

fun decodeQuads :: "string \<Rightarrow> bytes option" where
  "decodeQuads [] = Some []"
| "decodeQuads (w # x # y # z # rest) =
    (case (unb64 w, unb64 x) of
       (Some a, Some b) \<Rightarrow>
         (if rest = [] \<and> y = CHR ''='' \<and> z = CHR ''='' then Some (take 1 (quad3 a b 0 0))
          else
            (case unb64 y of
               None \<Rightarrow> None
             | Some c \<Rightarrow>
                 (if rest = [] \<and> z = CHR ''='' then Some (take 2 (quad3 a b c 0))
                  else
                    (case unb64 z of
                       None \<Rightarrow> None
                     | Some d \<Rightarrow> map_option (\<lambda>bs. quad3 a b c d @ bs) (decodeQuads rest)))))
     | _ \<Rightarrow> None)"
| "decodeQuads _ = None"

definition base64_Decode :: "string \<Rightarrow> bytes option" where
  "base64_Decode s = decodeQuads (filter (\<lambda>c. c \<noteq> CHR 0x0D \<and> c \<noteq> CHR 0x0A) s)"

subsection \<open>JSON strings\<close>

definition quoteChar :: char where
  "quoteChar = CHR 0x22"

definition backslash :: char where
  "backslash = CHR 0x5C"

text \<open>
  \<^verbatim>\<open>utf8.EncodeRune\<close>; a surrogate or a value above U+10FFFF is written as U+FFFD.
\<close>

definition encodeRune :: "nat \<Rightarrow> string" where
  "encodeRune r =
    (if r < 0x80 then [char_of r]
     else if r < 0x800 then [char_of (0xC0 + r div 0x40), char_of (0x80 + r mod 0x40)]
     else if (0xD800 \<le> r \<and> r < 0xE000) \<or> 0x10FFFF < r then [CHR 0xEF, CHR 0xBF, CHR 0xBD]
     else if r < 0x10000 then
       [char_of (0xE0 + r div 0x1000), char_of (0x80 + (r div 0x40) mod 0x40),
        char_of (0x80 + r mod 0x40)]
     else
       [char_of (0xF0 + r div 0x40000), char_of (0x80 + (r div 0x1000) mod 0x40),
        char_of (0x80 + (r div 0x40) mod 0x40), char_of (0x80 + r mod 0x40)])"

text \<open>
  The encoder of \<^verbatim>\<open>encoding/json\<close> for a string, with HTML escaping as
  \<^verbatim>\<open>json.Marshal\<close> has it.  A byte that is not part of a valid UTF-8 encoding is written
  as the escape of U+FFFD: the encoder coerces every string to valid UTF-8.
\<close>

definition htmlSafe :: "char \<Rightarrow> bool" where
  "htmlSafe c =
    (0x20 \<le> byte c \<and> byte c < 0x80 \<and> c \<noteq> quoteChar \<and> c \<noteq> backslash
     \<and> c \<noteq> CHR ''<'' \<and> c \<noteq> CHR ''>'' \<and> c \<noteq> CHR ''&'')"

definition escapeByte :: "char \<Rightarrow> string" where
  "escapeByte c =
    (if htmlSafe c then [c]
     else if c = quoteChar \<or> c = backslash then [backslash, c]
     else if c = CHR 0x08 then [backslash, CHR ''b'']
     else if c = CHR 0x0C then [backslash, CHR ''f'']
     else if c = CHR 0x0A then [backslash, CHR ''n'']
     else if c = CHR 0x0D then [backslash, CHR ''r'']
     else if c = CHR 0x09 then [backslash, CHR ''t'']
     else [backslash, CHR ''u'', CHR ''0'', CHR ''0'', hexdigits ! (byte c div 16),
           hexdigits ! (byte c mod 16)])"

definition runeWidth :: "string \<Rightarrow> nat" where
  "runeWidth s = max 1 (snd (decodeRune s))"

definition invalidRune :: "string \<Rightarrow> bool" where
  "invalidRune s = (fst (decodeRune s) = RuneError \<and> snd (decodeRune s) = 1)"

definition escapeRune :: "string \<Rightarrow> string" where
  "escapeRune s =
    (if byte (hd s) < 0x80 then escapeByte (hd s)
     else if invalidRune s then backslash # ''ufffd''
     else if fst (decodeRune s) = 0x2028 then backslash # ''u2028''
     else if fst (decodeRune s) = 0x2029 then backslash # ''u2029''
     else take (runeWidth s) s)"

fun appendString :: "string \<Rightarrow> string" where
  "appendString [] = []"
| "appendString (c # cs) =
    escapeRune (c # cs) @ appendString (drop (runeWidth (c # cs) - 1) cs)"

definition encString :: "string \<Rightarrow> string" where
  "encString s = quoteChar # appendString s @ [quoteChar]"

text \<open>
  What the encoder makes of a string once it is read back: the string coerced to valid
  UTF-8, each invalid byte replaced by the three bytes of U+FFFD.
\<close>

fun toValidUTF8 :: "string \<Rightarrow> string" where
  "toValidUTF8 [] = []"
| "toValidUTF8 (c # cs) =
    (if invalidRune (c # cs) then encodeRune RuneError else take (runeWidth (c # cs)) (c # cs))
    @ toValidUTF8 (drop (runeWidth (c # cs) - 1) cs)"

fun validUTF8 :: "string \<Rightarrow> bool" where
  "validUTF8 [] = True"
| "validUTF8 (c # cs) =
    (\<not> invalidRune (c # cs) \<and> validUTF8 (drop (runeWidth (c # cs) - 1) cs))"

text \<open>
  The decoder of \<^verbatim>\<open>encoding/json\<close> for a string literal (\<^verbatim>\<open>unquote\<close>), from the byte
  after the opening quote: the decoded string and the text after the closing quote.  A
  control character ends the scan with an error, an escape is decoded, a byte outside a
  valid UTF-8 encoding is read as U+FFFD.
\<close>

definition hexVal :: "char \<Rightarrow> nat option" where
  "hexVal c =
    (if isDigit c then Some (byte c - 0x30)
     else if 0x61 \<le> byte c \<and> byte c \<le> 0x66 then Some (byte c - 0x57)
     else if 0x41 \<le> byte c \<and> byte c \<le> 0x46 then Some (byte c - 0x37)
     else None)"

fun getu4 :: "string \<Rightarrow> nat option" where
  "getu4 (a # b # c # d # _) =
    (case (hexVal a, hexVal b, hexVal c, hexVal d) of
       (Some w, Some x, Some y, Some z) \<Rightarrow> Some (w * 0x1000 + x * 0x100 + y * 0x10 + z)
     | _ \<Rightarrow> None)"
| "getu4 _ = None"

definition getu4esc :: "string \<Rightarrow> nat option" where
  "getu4esc s =
    (case s of
       b # u # t \<Rightarrow> if b = backslash \<and> u = CHR ''u'' then getu4 t else None
     | _ \<Rightarrow> None)"

definition isSurrogate :: "nat \<Rightarrow> bool" where
  "isSurrogate r = (0xD800 \<le> r \<and> r < 0xE000)"

definition utf16_DecodeRune :: "nat \<Rightarrow> nat option \<Rightarrow> nat" where
  "utf16_DecodeRune r1 r2 =
    (case r2 of
       None \<Rightarrow> RuneError
     | Some r2 \<Rightarrow>
         if 0xD800 \<le> r1 \<and> r1 < 0xDC00 \<and> 0xDC00 \<le> r2 \<and> r2 < 0xE000
         then (r1 - 0xD800) * 0x400 + (r2 - 0xDC00) + 0x10000
         else RuneError)"

text \<open>An escape, from the byte after the backslash: its bytes and how many bytes it took.\<close>

definition unescape :: "string \<Rightarrow> (string \<times> nat) option" where
  "unescape s =
    (case s of
       [] \<Rightarrow> None
     | e # r \<Rightarrow>
         if e = quoteChar \<or> e = backslash \<or> e = CHR ''/'' then Some ([e], 1)
         else if e = CHR ''b'' then Some ([CHR 0x08], 1)
         else if e = CHR ''f'' then Some ([CHR 0x0C], 1)
         else if e = CHR ''n'' then Some ([CHR 0x0A], 1)
         else if e = CHR ''r'' then Some ([CHR 0x0D], 1)
         else if e = CHR ''t'' then Some ([CHR 0x09], 1)
         else if e = CHR ''u'' then
           (case getu4 r of
              None \<Rightarrow> None
            | Some rr \<Rightarrow>
                if isSurrogate rr then
                  (if utf16_DecodeRune rr (getu4esc (drop 4 r)) \<noteq> RuneError
                   then Some (encodeRune (utf16_DecodeRune rr (getu4esc (drop 4 r))), 11)
                   else Some (encodeRune RuneError, 5))
                else Some (encodeRune rr, 5))
         else None)"

function unquote :: "string \<Rightarrow> (string \<times> string) option" where
  "unquote [] = None"
| "unquote (c # cs) =
    (if c = quoteChar then Some ([], cs)
     else if c = backslash then
       (case unescape cs of
          None \<Rightarrow> None
        | Some (out, k) \<Rightarrow> map_option (\<lambda>(d, r). (out @ d, r)) (unquote (drop k cs)))
     else if byte c < 0x20 then None
     else if byte c < 0x80 then map_option (\<lambda>(d, r). (c # d, r)) (unquote cs)
     else
       map_option (\<lambda>(d, r). (encodeRune (fst (decodeRune (c # cs))) @ d, r))
         (unquote (drop (runeWidth (c # cs) - 1) cs)))"
  by pat_completeness auto
termination
  by (relation "measure length") auto

definition expect :: "string \<Rightarrow> string \<Rightarrow> string option" where
  "expect p s = (if HasPrefix s p then Some (drop (length p) s) else None)"

lemma expect_Some: "expect p s = Some r \<Longrightarrow> s = p @ r"
  by (auto simp: expect_def HasPrefix_def split: if_splits) (metis append_take_drop_id)

lemma expect_append: "expect p (p @ r) = Some r"
  by (simp add: expect_def HasPrefix_def)

definition decString :: "string \<Rightarrow> (string \<times> string) option" where
  "decString s = Option.bind (expect [quoteChar] s) unquote"

lemma unquote_shorter: "unquote s = Some (d, r) \<Longrightarrow> length r < length s"
proof (induction s arbitrary: d r rule: unquote.induct)
  case 1
  then show ?case by simp
next
  case (2 c cs)
  show ?case
  proof (cases "c = quoteChar")
    case True
    with "2.prems" show ?thesis by simp
  next
    case nq: False
    show ?thesis
    proof (cases "c = backslash")
      case True
      with nq "2.prems" obtain out k d' where
        u: "unescape cs = Some (out, k)" and q: "unquote (drop k cs) = Some (d', r)"
        by (auto split: option.splits)
      from "2.IH"(1) [OF nq True u refl q] show ?thesis by simp
    next
      case nb: False
      show ?thesis
      proof (cases "byte c < 0x20")
        case True
        with nq nb "2.prems" show ?thesis by simp
      next
        case nc: False
        show ?thesis
        proof (cases "byte c < 0x80")
          case True
          with nq nb nc "2.prems" obtain d' where "unquote cs = Some (d', r)"
            by auto
          from "2.IH"(2) [OF nq nb nc True this] show ?thesis by simp
        next
          case False
          with nq nb nc "2.prems" obtain d' where
            "unquote (drop (runeWidth (c # cs) - 1) cs) = Some (d', r)"
            by auto
          from "2.IH"(3) [OF nq nb nc False this] show ?thesis by simp
        qed
      qed
    qed
  qed
qed

lemma decString_shorter: "decString s = Some (d, r) \<Longrightarrow> length r < length s"
  by (auto simp: decString_def expect_def Option.bind_eq_Some_conv dest!: unquote_shorter
      split: if_splits)

subsection \<open>The encoding of an entry\<close>

text \<open>
  \<^verbatim>\<open>json.Marshal\<close> of an \<^verbatim>\<open>Entry\<close>: an object with the fields \<^verbatim>\<open>Status\<close>, \<^verbatim>\<open>Header\<close>
  and \<^verbatim>\<open>Body\<close> in this order; the header map as an object with its keys sorted, each
  value an array of strings; the body as a string in base64.  The encoder cannot fail on
  this type.
\<close>

definition encStrings :: "string list \<Rightarrow> string" where
  "encStrings vs = ''['' @ Join (map encString vs) '','' @ '']''"

definition encMember :: "header \<Rightarrow> string \<Rightarrow> string" where
  "encMember h k = encString k @ '':'' @ encStrings (Values h k)"

definition encHeader :: "header \<Rightarrow> string" where
  "encHeader h =
    ''{'' @ Join (map (encMember h) (sorted_list_of_fset (fmdom h))) '','' @ ''}''"

definition field :: "string \<Rightarrow> string" where
  "field name = quoteChar # name @ [quoteChar, CHR '':'']"

definition json_Marshal :: "entry \<Rightarrow> bytes" where
  "json_Marshal e =
    ''{'' @ field ''Status'' @ showInt (Status e)
    @ '','' @ field ''Header'' @ encHeader (Header e)
    @ '','' @ field ''Body'' @ [quoteChar] @ base64_Encode (Body e) @ [quoteChar]
    @ ''}''"

text \<open>
  \<^verbatim>\<open>json.Unmarshal\<close> into an \<^verbatim>\<open>Entry\<close>, modelled on the texts that \<^verbatim>\<open>json.Marshal\<close>
  writes for an \<^verbatim>\<open>Entry\<close> (the only texts \<open>Set\<close> writes), with any spelling of their
  strings and \<^verbatim>\<open>null\<close> for a nil map or slice.  The library decoder also accepts white
  space, other orders of the fields and unknown fields; the model reports an error for
  those texts, and no theorem below depends on which texts outside the encoder's are
  refused.
\<close>

definition decInt :: "string \<Rightarrow> (int \<times> string) option" where
  "decInt s =
    (let neg = HasPrefix s ''-'';
         t = (if neg then drop 1 s else s);
         ds = takeWhile isDigit t;
         v = (if neg then - int (readNat ds) else int (readNat ds))
     in if ds = [] \<or> (1 < length ds \<and> hd ds = CHR ''0'') \<or> \<not> int64 v then None
        else Some (v, dropWhile isDigit t))"

function decElems :: "string \<Rightarrow> (string list \<times> string) option" where
  "decElems s =
    (case decString s of
       None \<Rightarrow> None
     | Some (x, r) \<Rightarrow>
         (case r of
            [] \<Rightarrow> None
          | c # r' \<Rightarrow>
              if c = CHR '','' then map_option (\<lambda>(xs, t). (x # xs, t)) (decElems r')
              else if c = CHR '']'' then Some ([x], r')
              else None))"
  by pat_completeness auto
termination
  by (relation "measure length") (auto dest: decString_shorter)

declare decElems.simps [simp del]

definition decStrings :: "string \<Rightarrow> (string list \<times> string) option" where
  "decStrings s =
    (case expect ''null'' s of
       Some r \<Rightarrow> Some ([], r)
     | None \<Rightarrow>
         (case expect ''[]'' s of
            Some r \<Rightarrow> Some ([], r)
          | None \<Rightarrow> Option.bind (expect ''['' s) decElems))"

lemma decElems_shorter: "decElems s = Some (xs, r) \<Longrightarrow> length r < length s"
proof (induction s arbitrary: xs r rule: decElems.induct)
  case (1 s)
  from "1.prems" obtain x r0 where d: "decString s = Some (x, r0)"
    by (subst (asm) decElems.simps) (auto split: option.splits)
  from "1.prems" d obtain c r' where r0: "r0 = c # r'"
    by (subst (asm) decElems.simps) (auto split: list.splits)
  from decString_shorter [OF d] r0 have l: "length r' < length s"
    by simp
  show ?case
  proof (cases "c = CHR '',''")
    case True
    with "1.prems" d r0 obtain ys where "decElems r' = Some (ys, r)"
      by (subst (asm) decElems.simps) auto
    from "1.IH" [OF d refl r0 True this] l show ?thesis
      by simp
  next
    case False
    with "1.prems" d r0 have "r = r'"
      by (subst (asm) decElems.simps) (auto split: if_splits)
    with l show ?thesis by simp
  qed
qed

lemma decStrings_shorter: "decStrings s = Some (xs, r) \<Longrightarrow> length r < length s"
  by (auto simp: decStrings_def Option.bind_eq_Some_conv
      dest!: decElems_shorter expect_Some split: option.splits)

function decMembers :: "header \<Rightarrow> string \<Rightarrow> (header \<times> string) option" where
  "decMembers h s =
    (case decString s of
       None \<Rightarrow> None
     | Some (k, r) \<Rightarrow>
         (case expect '':'' r of
            None \<Rightarrow> None
          | Some r1 \<Rightarrow>
              (case decStrings r1 of
                 None \<Rightarrow> None
               | Some (vs, r2) \<Rightarrow>
                   (case r2 of
                      [] \<Rightarrow> None
                    | c # r3 \<Rightarrow>
                        if c = CHR '','' then decMembers (fmupd k vs h) r3
                        else if c = CHR ''}'' then Some (fmupd k vs h, r3)
                        else None))))"
  by pat_completeness auto
termination
  by (relation "measure (\<lambda>(h, s). length s)")
    (auto simp: expect_def dest!: decString_shorter decStrings_shorter split: if_splits)

declare decMembers.simps [simp del]

definition decHeader :: "string \<Rightarrow> (header \<times> string) option" where
  "decHeader s =
    (case expect ''null'' s of
       Some r \<Rightarrow> Some (fmempty, r)
     | None \<Rightarrow>
         (case expect ''{}'' s of
            Some r \<Rightarrow> Some (fmempty, r)
          | None \<Rightarrow> Option.bind (expect ''{'' s) (decMembers fmempty)))"

definition decBody :: "string \<Rightarrow> (bytes \<times> string) option" where
  "decBody s =
    (case expect ''null'' s of
       Some r \<Rightarrow> Some ([], r)
     | None \<Rightarrow>
         (case decString s of
            None \<Rightarrow> None
          | Some (t, r) \<Rightarrow> map_option (\<lambda>b. (b, r)) (base64_Decode t)))"

definition decEntry :: "string \<Rightarrow> (entry \<times> string) option" where
  "decEntry s =
    (case Option.bind (expect (''{'' @ field ''Status'') s) decInt of
       None \<Rightarrow> None
     | Some (st, r1) \<Rightarrow>
         (case Option.bind (expect ('','' @ field ''Header'') r1) decHeader of
            None \<Rightarrow> None
          | Some (h, r2) \<Rightarrow>
              (case Option.bind (expect ('','' @ field ''Body'') r2) decBody of
                 None \<Rightarrow> None
               | Some (b, r3) \<Rightarrow>
                   map_option (\<lambda>r. (\<lparr>Status = st, Header = h, Body = b\<rparr>, r))
                     (expect ''}'' r3))))"

definition json_Unmarshal :: "bytes \<Rightarrow> error + entry" where
  "json_Unmarshal data =
    (case decEntry data of
       Some (e, []) \<Rightarrow> Inr e
     | _ \<Rightarrow> Inl ErrJSON)"

section \<open>The file system\<close>

text \<open>
  The part of the operating system the store talks to.  The regular files are a table
  from cleaned path names to contents; directories are not represented (creating one
  changes nothing that the store can observe).  \<open>os\<close> says for every call whether the
  system carries it out or refuses it (a permission, a full disk, an I/O error): it makes
  each error return of the source reachable.  \<open>FailAfter k\<close> is a write that fails after
  \<open>k\<close> bytes.
\<close>

type_synonym path = string

datatype fsop =
  OpMkdirAll path | OpOpen path | OpRead path | OpWriteFile path | OpRename path path
  | OpRemove path | OpWalk path

datatype verdict = Done | Fail | FailAfter nat

record fs =
  files :: "(path, bytes) fmap"
  os :: "fsop \<Rightarrow> verdict"

subsection \<open>path/filepath\<close>

text \<open>
  \<^verbatim>\<open>filepath.Clean\<close> on a system whose separator is the slash: empty and \<^verbatim>\<open>.\<close> elements
  go, a \<^verbatim>\<open>..\<close> element takes the element before it with it (at the root it is dropped,
  at the start of a relative path it stays), the empty result is \<^verbatim>\<open>.\<close>.
\<close>

fun cleanElems :: "bool \<Rightarrow> string list \<Rightarrow> string list \<Rightarrow> string list" where
  "cleanElems rooted [] acc = rev acc"
| "cleanElems rooted (c # cs) acc =
    cleanElems rooted cs
      (if c = [] \<or> c = ''.'' then acc
       else if c = ''..'' then
         (case acc of
            [] \<Rightarrow> if rooted then [] else [''..'']
          | a # as \<Rightarrow> if a = ''..'' then ''..'' # acc else as)
       else c # acc)"

definition filepath_Clean :: "path \<Rightarrow> path" where
  "filepath_Clean p =
    (if p = [] then ''.''
     else if hd p = CHR ''/'' then CHR ''/'' # Join (cleanElems True (Split p CHR ''/'') []) ''/''
     else if cleanElems False (Split p CHR ''/'') [] = [] then ''.''
     else Join (cleanElems False (Split p CHR ''/'') []) ''/'')"

definition filepath_Join :: "string list \<Rightarrow> path" where
  "filepath_Join elems =
    (if filter (\<lambda>e. e \<noteq> []) elems = [] then []
     else filepath_Clean (Join (filter (\<lambda>e. e \<noteq> []) elems) ''/''))"

text \<open>The part of a path up to and including its last slash.\<close>

definition dirPart :: "path \<Rightarrow> path" where
  "dirPart p = rev (dropWhile (\<lambda>c. c \<noteq> CHR ''/'') (rev p))"

definition basePart :: "path \<Rightarrow> path" where
  "basePart p = rev (takeWhile (\<lambda>c. c \<noteq> CHR ''/'') (rev p))"

definition filepath_Dir :: "path \<Rightarrow> path" where
  "filepath_Dir p = filepath_Clean (dirPart p)"

definition filepath_Ext :: "path \<Rightarrow> string" where
  "filepath_Ext p =
    (if CHR ''.'' \<in> set (basePart p)
     then CHR ''.'' # rev (takeWhile (\<lambda>c. c \<noteq> CHR ''.'') (rev (basePart p)))
     else [])"

text \<open>
  The files that \<^verbatim>\<open>filepath.Walk(root, fn)\<close> visits: the files below the root, in the
  lexical order of their elements.  A path below the root is the cleaned root followed
  by further elements.
\<close>

definition afterRoot :: "path \<Rightarrow> path \<Rightarrow> path" where
  "afterRoot r p =
    (if r = ''/'' then drop 1 p else if r = ''.'' then p else drop (length r + 1) p)"

definition below :: "path \<Rightarrow> path \<Rightarrow> bool" where
  "below root p =
    ((if filepath_Clean root = ''/'' then HasPrefix p ''/''
      else if filepath_Clean root = ''.'' then \<not> HasPrefix p ''/''
      else HasPrefix p (filepath_Clean root @ ''/''))
     \<and> afterRoot (filepath_Clean root) p \<noteq> []
     \<and> afterRoot (filepath_Clean root) p \<noteq> ''.''
     \<and> afterRoot (filepath_Clean root) p \<noteq> ''..''
     \<and> \<not> HasPrefix (afterRoot (filepath_Clean root) p) ''../'')"

definition walkFiles :: "fs \<Rightarrow> path \<Rightarrow> path list" where
  "walkFiles s root =
    sort_key (\<lambda>p. Split p CHR ''/'')
      (filter (below root) (sorted_list_of_fset (fmdom (files s))))"

subsection \<open>os\<close>

text \<open>
  \<^verbatim>\<open>os.Open\<close> followed by \<^verbatim>\<open>io.ReadAll\<close>; \<open>Inl None\<close> is the error that
  \<^verbatim>\<open>os.IsNotExist\<close> recognises, \<open>Inl (Some e)\<close> any other.
\<close>

definition os_Open :: "fs \<Rightarrow> path \<Rightarrow> error option + bytes" where
  "os_Open s p =
    (if os s (OpOpen p) \<noteq> Done then Inl (Some ErrOS)
     else (case fmlookup (files s) p of None \<Rightarrow> Inl None | Some data \<Rightarrow> Inr data))"

definition io_ReadAll :: "fs \<Rightarrow> path \<Rightarrow> bytes \<Rightarrow> error + bytes" where
  "io_ReadAll s p data = (if os s (OpRead p) \<noteq> Done then Inl ErrOS else Inr data)"

definition os_MkdirAll :: "fs \<Rightarrow> path \<Rightarrow> error option" where
  "os_MkdirAll s d = (if os s (OpMkdirAll d) \<noteq> Done then Some ErrOS else None)"

definition os_WriteFile :: "fs \<Rightarrow> path \<Rightarrow> bytes \<Rightarrow> fs \<times> error option" where
  "os_WriteFile s p b =
    (case os s (OpWriteFile p) of
       Done \<Rightarrow> (s\<lparr>files := fmupd p b (files s)\<rparr>, None)
     | Fail \<Rightarrow> (s, Some ErrOS)
     | FailAfter k \<Rightarrow> (s\<lparr>files := fmupd p (take k b) (files s)\<rparr>, Some ErrOS))"

definition os_Rename :: "fs \<Rightarrow> path \<Rightarrow> path \<Rightarrow> fs \<times> error option" where
  "os_Rename s old new =
    (if os s (OpRename old new) \<noteq> Done then (s, Some ErrOS)
     else
       (case fmlookup (files s) old of
          None \<Rightarrow> (s, Some ErrOS)
        | Some data \<Rightarrow> (s\<lparr>files := fmupd new data (fmdrop old (files s))\<rparr>, None)))"

text \<open>\<^verbatim>\<open>os.Remove\<close>; as for \<open>os_Open\<close>, \<open>Some None\<close> is the error of a missing file.\<close>

definition os_Remove :: "fs \<Rightarrow> path \<Rightarrow> fs \<times> error option option" where
  "os_Remove s p =
    (if os s (OpRemove p) \<noteq> Done then (s, Some (Some ErrOS))
     else
       (case fmlookup (files s) p of
          None \<Rightarrow> (s, Some None)
        | Some _ \<Rightarrow> (s\<lparr>files := fmdrop p (files s)\<rparr>, None)))"

section \<open>The store (package cache, DiskCache)\<close>

text \<open>
  The \<^verbatim>\<open>locks\<close> field of \<^verbatim>\<open>DiskCache\<close> serialises concurrent writers; in a single call it
  is taken and released with no effect, and it is left out of the sequential model.
\<close>

record DiskCache =
  dir :: path

definition ShardPath :: "path \<Rightarrow> string \<Rightarrow> path" where
  "ShardPath cacheDir key =
    filepath_Join
      (cacheDir
       # (if 2 \<le> length key then [take 2 key] else [])
       @ (if 4 \<le> length key then [take 2 (drop 2 key)] else [])
       @ [key])"

definition filePathForKey :: "DiskCache \<Rightarrow> string \<Rightarrow> path" where
  "filePathForKey c key = ShardPath (dir c) key @ ''.json''"

text \<open>
  \<^verbatim>\<open>Get\<close> returns the triple of the source: the entry, the flag \<^verbatim>\<open>ok\<close>, and the error.
\<close>

definition DiskCache_Get :: "DiskCache \<Rightarrow> fs \<Rightarrow> string \<Rightarrow> entry option \<times> bool \<times> error option" where
  "DiskCache_Get c s key =
    (case os_Open s (filePathForKey c key) of
       Inl None \<Rightarrow> (None, False, None)
     | Inl (Some err) \<Rightarrow> (None, False, Some err)
     | Inr f \<Rightarrow>
         (case io_ReadAll s (filePathForKey c key) f of
            Inl err \<Rightarrow> (None, False, Some err)
          | Inr data \<Rightarrow>
              (case json_Unmarshal data of
                 Inl err \<Rightarrow> (None, False, Some err)
               | Inr e \<Rightarrow> (Some e, True, None))))"

text \<open>\<^verbatim>\<open>Set\<close>: the new file system and the error; a nil entry is \<open>None\<close>.\<close>

definition DiskCache_Set :: "DiskCache \<Rightarrow> fs \<Rightarrow> string \<Rightarrow> entry option \<Rightarrow> fs \<times> error option" where
  "DiskCache_Set c s key eo =
    (case eo of
       None \<Rightarrow> (s, Some ErrNilEntry)
     | Some e \<Rightarrow>
         (case os_MkdirAll s (filepath_Dir (filePathForKey c key)) of
            Some err \<Rightarrow> (s, Some err)
          | None \<Rightarrow>
              (case os_WriteFile s (filePathForKey c key @ ''.tmp'') (json_Marshal e) of
                 (s1, Some err) \<Rightarrow> (s1, Some err)
               | (s1, None) \<Rightarrow>
                   os_Rename s1 (filePathForKey c key @ ''.tmp'') (filePathForKey c key))))"

definition DiskCache_Delete :: "DiskCache \<Rightarrow> fs \<Rightarrow> string \<Rightarrow> fs \<times> error option" where
  "DiskCache_Delete c s key =
    (case os_Remove s (filePathForKey c key) of
       (s1, Some (Some err)) \<Rightarrow> (s1, Some err)
     | (s1, _) \<Rightarrow> (s1, None))"

text \<open>
  \<^verbatim>\<open>Clear\<close>: the callback of the walk, file by file.  The result is the new file system,
  the count and the error.
\<close>

fun clearWalk :: "fs \<Rightarrow> path list \<Rightarrow> nat \<Rightarrow> fs \<times> nat \<times> error option" where
  "clearWalk s [] count = (s, count, None)"
| "clearWalk s (p # ps) count =
    (if os s (OpWalk p) \<noteq> Done then (s, count, Some ErrOS)
     else if filepath_Ext p = ''.json'' then
       (case os_Remove s p of
          (s1, None) \<Rightarrow> clearWalk s1 ps (count + 1)
        | (s1, Some None) \<Rightarrow> clearWalk s1 ps count
        | (s1, Some (Some err)) \<Rightarrow> (s1, count, Some err))
     else clearWalk s ps count)"

definition DiskCache_Clear :: "DiskCache \<Rightarrow> fs \<Rightarrow> fs \<times> nat \<times> error option" where
  "DiskCache_Clear c s =
    (if os s (OpWalk (dir c)) \<noteq> Done then (s, 0, Some ErrOS)
     else clearWalk s (walkFiles s (dir c)) 0)"

section \<open>Cache eligibility (package proxy)\<close>

definition containsToken :: "string \<Rightarrow> string \<Rightarrow> bool" where
  "containsToken v token =
    list_ex (\<lambda>part. EqualFold (TrimSpace part) token) (Split v CHR '','')"

definition reqNoStore :: "request \<Rightarrow> bool" where
  "reqNoStore r = containsToken (Get (req_Header r) ''Cache-Control'') ''no-store''"

definition cacheEligible :: "request \<Rightarrow> bool" where
  "cacheEligible r =
    (Method r = ''GET'' \<and> Get (req_Header r) ''Authorization'' = [] \<and> \<not> reqNoStore r)"

definition resNoStore :: "header \<Rightarrow> bool" where
  "resNoStore h = containsToken (Get h ''Cache-Control'') ''no-store''"

section \<open>The request handler (package proxy)\<close>

text \<open>
  What a handler run hands to the \<^verbatim>\<open>http.ResponseWriter\<close>: the status code, the header
  set at the time of \<^verbatim>\<open>WriteHeader\<close>, and the body.  The model follows the runs that end
  with a final status code (200 to 999); \<open>Other\<close> stands for the rest, which the library
  decides: \<^verbatim>\<open>WriteHeader\<close> panics on a code outside 100 to 999 and treats a code below 200
  as informational.
\<close>

record written =
  w_Status :: int
  w_Header :: header
  w_Body :: bytes

datatype outcome = Responded written | Other

definition respond :: "int \<Rightarrow> header \<Rightarrow> bytes \<Rightarrow> outcome" where
  "respond code h b =
    (if 200 \<le> code \<and> code \<le> 999 then Responded \<lparr>w_Status = code, w_Header = h, w_Body = b\<rparr>
     else Other)"

text \<open>
  The response of the origin as \<^verbatim>\<open>RoundTrip\<close> returns it; \<open>BodyErr\<close> says that reading
  its body fails.
\<close>

record response =
  StatusCode :: int
  res_Header :: header
  res_Body :: bytes
  BodyErr :: bool

text \<open>What a run does to its collaborators, in order.\<close>

datatype event = CacheGet string | CacheSet string entry | OriginCall request

definition copyHeaders :: "golib \<Rightarrow> header \<Rightarrow> header \<Rightarrow> header" where
  "copyHeaders L dst src =
    foldl (\<lambda>d k. foldl (\<lambda>d' v. Add d' k v) d (Values src k)) dst (mapOrder L src)"

text \<open>The director of \<^verbatim>\<open>newReverseProxy\<close>.\<close>

definition director :: "golib \<Rightarrow> url \<Rightarrow> request \<Rightarrow> request" where
  "director L target r =
    (origDirector L target r)
      \<lparr>req_Header := filterHopByHop (req_Header (origDirector L target r)),
       req_Host := Host target\<rparr>"

text \<open>
  \<^verbatim>\<open>httputil.ReverseProxy\<close> removes the hop-by-hop headers of a response itself before it
  calls \<^verbatim>\<open>ModifyResponse\<close>: the names that any \<^verbatim>\<open>Connection\<close> value lists (trimmed of
  ASCII white space) and its own fixed list, which is \<open>hopHeaders\<close>.  A response with
  status 101 skips this step.
\<close>

definition TrimString :: "string \<Rightarrow> string" where
  "TrimString f =
    rev (dropWhile (\<lambda>c. c \<in> set [CHR '' '', CHR 0x09, CHR 0x0A, CHR 0x0D])
      (rev (dropWhile (\<lambda>c. c \<in> set [CHR '' '', CHR 0x09, CHR 0x0A, CHR 0x0D]) f)))"

definition delField :: "header \<Rightarrow> string \<Rightarrow> header" where
  "delField h f = (if TrimString f \<noteq> [] then Del h (TrimString f) else h)"

definition removeHopByHopHeaders :: "header \<Rightarrow> header" where
  "removeHopByHopHeaders h =
    foldl Del
      (foldl (\<lambda>h' v. foldl delField h' (Split v CHR '','')) h (Values h ''Connection''))
      hopHeaders"

definition stripped :: "response \<Rightarrow> response" where
  "stripped res =
    (if StatusCode res = 101 then res
     else res\<lparr>res_Header := removeHopByHopHeaders (res_Header res)\<rparr>)"

text \<open>
  The error handler of \<^verbatim>\<open>newReverseProxy\<close>: \<^verbatim>\<open>http.Error\<close> with status 502.
\<close>

definition badGateway :: outcome where
  "badGateway =
    respond 502
      (fmap_of_list
        [(''Content-Type'', [''text/plain; charset=utf-8'']),
         (''X-Content-Type-Options'', [''nosniff''])])
      (''Bad Gateway'' @ [CHR 0x0A])"

text \<open>The proxy copies the headers of the response it relays into the empty header set
  of the \<^verbatim>\<open>ResponseWriter\<close>.\<close>

definition relay :: "golib \<Rightarrow> response \<Rightarrow> outcome" where
  "relay L res =
    respond (StatusCode res) (copyHeaders L fmempty (res_Header res)) (res_Body res)"

text \<open>\<^verbatim>\<open>ModifyResponse\<close> of the proxy that serves a cache miss.\<close>

definition missEntry :: "response \<Rightarrow> entry" where
  "missEntry res =
    \<lparr>Status = StatusCode res,
     Header =
       CloneHeaders
         (Set (Set (filterHopByHop (res_Header res)) ''X-Cache'' ''MISS'') ''Content-Length''
           (showInt (int (length (res_Body res))))),
     Body = res_Body res\<rparr>"

definition modifyResponseMiss ::
    "DiskCache \<Rightarrow> fs \<Rightarrow> string \<Rightarrow> response \<Rightarrow> (error + response) \<times> fs \<times> event list" where
  "modifyResponseMiss c s key res =
    (let h = Set (filterHopByHop (res_Header res)) ''X-Cache'' ''MISS'' in
     if resNoStore h then (Inr (res\<lparr>res_Header := h\<rparr>), s, [])
     else if BodyErr res then (Inl ErrBody, s, [])
     else
       (Inr (res\<lparr>res_Header :=
                 Set h ''Content-Length'' (showInt (int (length (res_Body res))))\<rparr>),
        fst (DiskCache_Set c s key (Some (missEntry res))),
        [CacheSet key (missEntry res)]))"

text \<open>\<^verbatim>\<open>ModifyResponse\<close> of the base proxy.\<close>

definition modifyResponseBase :: "response \<Rightarrow> response" where
  "modifyResponseBase res = res\<lparr>res_Header := filterHopByHop (res_Header res)\<rparr>"

definition serveMiss ::
    "golib \<Rightarrow> url \<Rightarrow> (request \<Rightarrow> response option) \<Rightarrow> DiskCache \<Rightarrow> fs \<Rightarrow> string \<Rightarrow> request
      \<Rightarrow> outcome \<times> fs \<times> event list" where
  "serveMiss L target origin c s key r =
    (case origin (director L target r) of
       None \<Rightarrow> (badGateway, s, [OriginCall (director L target r)])
     | Some res \<Rightarrow>
         (case modifyResponseMiss c s key (stripped res) of
            (Inl err, s1, ev) \<Rightarrow> (badGateway, s1, OriginCall (director L target r) # ev)
          | (Inr res1, s1, ev) \<Rightarrow> (relay L res1, s1, OriginCall (director L target r) # ev)))"

definition serveBase ::
    "golib \<Rightarrow> url \<Rightarrow> (request \<Rightarrow> response option) \<Rightarrow> fs \<Rightarrow> request
      \<Rightarrow> outcome \<times> fs \<times> event list" where
  "serveBase L target origin s r =
    (case origin (director L target r) of
       None \<Rightarrow> (badGateway, s, [OriginCall (director L target r)])
     | Some res \<Rightarrow>
         (relay L (modifyResponseBase (stripped res)), s, [OriginCall (director L target r)]))"

definition serveHit :: "golib \<Rightarrow> entry \<Rightarrow> outcome" where
  "serveHit L ent =
    respond (Status ent)
      (filterHopByHop (Set (copyHeaders L fmempty (Header ent)) ''X-Cache'' ''HIT''))
      (Body ent)"

text \<open>
  The handler that \<^verbatim>\<open>Run\<close> installs for every path but the liveness check: the outcome,
  the file system afterwards and the events.  \<open>co\<close> is the cache, \<open>None\<close> when none is
  configured; \<open>target\<close> is the parsed origin.
\<close>

definition handler ::
    "golib \<Rightarrow> string \<Rightarrow> url \<Rightarrow> (request \<Rightarrow> response option) \<Rightarrow> DiskCache option \<Rightarrow> fs \<Rightarrow> request
      \<Rightarrow> outcome \<times> fs \<times> event list" where
  "handler L originBase target origin co s r =
    (case co of
       None \<Rightarrow> serveBase L target origin s r
     | Some c \<Rightarrow>
         if cacheEligible r then
           (case BuildCacheKey L originBase r of
              Inl err \<Rightarrow> serveBase L target origin s r
            | Inr key \<Rightarrow>
                (case DiskCache_Get c s key of
                   (Some ent, True, _) \<Rightarrow> (serveHit L ent, s, [CacheGet key])
                 | _ \<Rightarrow>
                     (case serveMiss L target origin c s key r of
                        (out, s1, ev) \<Rightarrow> (out, s1, CacheGet key # ev))))
         else serveBase L target origin s r)"

text \<open>
  Two facts about the header sets of a running proxy that the model states as
  predicates.  \<^verbatim>\<open>net/http\<close> delivers header names in canonical form (a name with a byte
  outside the token characters is its own canonical form).  The order in which a
  \<^verbatim>\<open>range\<close> visits the names of a map is some enumeration of them.
\<close>

definition canonicalNames :: "header \<Rightarrow> bool" where
  "canonicalNames h = (\<forall>k. k |\<in>| fmdom h \<longrightarrow> CanonicalMIMEHeaderKey k = k)"

definition rangesOver :: "golib \<Rightarrow> header \<Rightarrow> bool" where
  "rangesOver L h = (distinct (mapOrder L h) \<and> set (mapOrder L h) = fset (fmdom h))"

section \<open>Example values\<close>

text \<open>Concrete values on which the model is run.\<close>

definition h_example :: header where
  "h_example =
    fmap_of_list
      [(''Connection'', [''close, x-foo'']), (''X-Foo'', [''1'']), (''Te'', [''trailers'']),
       (''Content-Type'', [''text/plain''])]"

definition c_example :: DiskCache where
  "c_example = \<lparr>dir = ''/cache''\<rparr>"

definition key_example :: string where
  "key_example = ''474554''"

definition path_example :: path where
  "path_example = ''/cache/47/45/474554.json''"

definition e_example :: entry where
  "e_example = \<lparr>Status = 200, Header = fmap_of_list [(''X-Cache'', [''MISS''])], Body = ''hi''\<rparr>"

definition text_example :: bytes where
  "text_example =
    ''{'' @ field ''Status'' @ ''200,'' @ field ''Header'' @ ''{'' @ field ''X-Cache'' @ ''[''
    @ [quoteChar] @ ''MISS'' @ [quoteChar] @ '']},'' @ field ''Body'' @ [quoteChar] @ ''aGk=''
    @ [quoteChar] @ ''}''"

definition fs_empty :: fs where
  "fs_empty = \<lparr>files = fmempty, os = (\<lambda>_. Done)\<rparr>"

definition fs_one :: fs where
  "fs_one = \<lparr>files = fmap_of_list [(path_example, text_example)], os = (\<lambda>_. Done)\<rparr>"

definition fs_bad :: fs where
  "fs_bad = \<lparr>files = fmap_of_list [(path_example, ''{'')], os = (\<lambda>_. Done)\<rparr>"

definition fs_two :: fs where
  "fs_two =
    \<lparr>files =
       fmap_of_list
         [(path_example, text_example), (''/cache/ff/00/ff00.json'', text_example),
          (''/cache/notes.txt'', ''memo''), (''/other/x.json'', ''{}'')],
     os = (\<lambda>_. Done)\<rparr>"

text \<open>
  An instance of the library parameters: stand-ins on which the model can be run, not
  models of the library functions.
\<close>

definition lib_example :: golib where
  "lib_example =
    \<lparr>url_Parse =
       (\<lambda>s. if s = [] then Inl ErrURL
            else Inr \<lparr>Scheme = ''http'', Opaque = [], User = [], Host = s, Path = [], RawPath = [],
                      ForceQuery = False, RawQuery = [], Fragment = []\<rparr>),
     url_String =
       (\<lambda>u. Scheme u @ ''://'' @ Host u @ Path u
            @ (if RawQuery u = [] then [] else CHR ''?'' # RawQuery u)),
     sha256_Sum256 = (\<lambda>b. take 3 b),
     origDirector = (\<lambda>t r. r\<lparr>URL := (URL r)\<lparr>Scheme := Scheme t, Host := Host t\<rparr>\<rparr>),
     mapOrder = (\<lambda>h. sorted_list_of_fset (fmdom h))\<rparr>"

definition url_example :: url where
  "url_example =
    \<lparr>Scheme = [], Opaque = [], User = [], Host = [], Path = ''/items'', RawPath = [],
     ForceQuery = False, RawQuery = ''page=2'', Fragment = []\<rparr>"

definition req_example :: request where
  "req_example =
    \<lparr>Method = ''GET'', URL = url_example, Proto = ''HTTP/1.1'',
     req_Header = fmap_of_list [(''Accept'', [''text/plain'']), (''Cookie'', [''a=1''])],
     req_Body = [], req_Host = ''localhost:3000'', RemoteAddr = ''10.0.0.1:5000''\<rparr>"

definition req_other :: request where
  "req_other =
    req_example
      \<lparr>req_Header :=
         fmap_of_list
           [(''Accept'', [''text/plain'', ''text/html'']), (''Cookie'', [''b=2'']),
            (''User-Agent'', [''curl''])],
       req_Body := ''x'', RemoteAddr := ''10.0.0.2:6000'', Proto := ''HTTP/2.0''\<rparr>"

definition target_example :: url where
  "target_example =
    \<lparr>Scheme = ''http'', Opaque = [], User = [], Host = ''origin'', Path = [], RawPath = [],
     ForceQuery = False, RawQuery = [], Fragment = []\<rparr>"

definition res_example :: response where
  "res_example =
    \<lparr>StatusCode = 200,
     res_Header = fmap_of_list [(''Content-Type'', [''text/plain'']), (''Vary'', [''b'', ''a''])],
     res_Body = ''hi'', BodyErr = False\<rparr>"

definition origin_example :: "request \<Rightarrow> response option" where
  "origin_example r = Some res_example"

definition req_bearer :: request where
  "req_bearer = req_example\<lparr>req_Header := fmap_of_list [(''Authorization'', [''Bearer x''])]\<rparr>"

definition req_two_auth :: request where
  "req_two_auth =
    req_example\<lparr>req_Header := fmap_of_list [(''Authorization'', [[], ''Bearer x''])]\<rparr>"

definition res_two_cc :: response where
  "res_two_cc =
    \<lparr>StatusCode = 200,
     res_Header = fmap_of_list [(''Cache-Control'', [''public'', ''no-store''])],
     res_Body = ''hi'', BodyErr = False\<rparr>"

definition h_two_conn :: header where
  "h_two_conn = fmap_of_list [(''Connection'', [''close'', ''x-foo'']), (''X-Foo'', [''1''])]"

section \<open>Properties of the header sanitizer\<close>

lemma lookup_foldl_Del:
  "fmlookup (foldl Del h ks) k =
    (if k \<in> CanonicalMIMEHeaderKey ` set ks then None else fmlookup h k)"
  by (induction ks arbitrary: h) (auto simp: Del_def)

lemma lookup_foldl_delToken:
  "fmlookup (foldl delToken h fs) k =
    (if k \<in> set (map (\<lambda>f. CanonicalMIMEHeaderKey (TrimSpace f))
                  (filter (\<lambda>f. TrimSpace f \<noteq> []) fs))
     then None else fmlookup h k)"
proof (induction fs arbitrary: h)
  case Nil
  show ?case by simp
next
  case (Cons f fs)
  show ?case
    unfolding foldl_Cons Cons.IH
    by (auto simp: delToken_def Del_def Let_def)
qed

lemma TrimSpace_Nil: "TrimSpace [] = []"
  by (simp add: TrimSpace_def TrimRightSpace.simps [of "[]"])

lemma nominated_Nil: "nominated [] = {}"
  by (simp add: nominated_def TrimSpace_Nil)

lemma lookup_filterHopByHop:
  "fmlookup (filterHopByHop h) k =
    (if k \<in> hopNames \<union> nominated (Get h ''Connection'') then None else fmlookup h k)"
  by (auto simp: filterHopByHop_def Let_def lookup_foldl_Del lookup_foldl_delToken
      nominated_def hopNames_def TrimSpace_Nil)

lemma Connection_hop: "CanonicalMIMEHeaderKey ''Connection'' \<in> hopNames"
  by (simp add: hopNames_def hopHeaders_def)

lemma Get_filterHopByHop_Connection: "Get (filterHopByHop h) ''Connection'' = []"
  using Connection_hop by (simp add: Get_def lookup_filterHopByHop)

lemma filterHopByHop_idem: "filterHopByHop (filterHopByHop h) = filterHopByHop h"
  by (rule fmap_ext)
    (simp add: lookup_filterHopByHop Get_filterHopByHop_Connection nominated_Nil)

lemmas string_eval =
  byte_def cont_def RuneStart_def lastRuneLen_def decodeLastRune_def isSpace_def foldEq_def
  RuneError_def HasPrefix_def HasSuffix_def TrimSpace_def TrimRightSpace.simps EqualFold.simps
  isLower_def isUpper_def isDigit_def validHeaderFieldByte_def lowerLetters_def
  upperLetters_def toUpper_def toLower_def canonicalChar_def CanonicalMIMEHeaderKey_def
  Let_def

lemmas header_eval =
  Get_def Set_def Values_def Add_def Del_def hopHeaders_def hopNames_def nominated_def
  delToken_def filterHopByHop_def

lemmas json_eval =
  digitChars_def showNat.simps showInt_def digitVal_def readNat_def encodeStd_def b64_def
  unb64_def quad3_def base64_Decode_def quoteChar_def backslash_def encodeRune_def htmlSafe_def
  escapeByte_def runeWidth_def invalidRune_def escapeRune_def encString_def hexVal_def
  getu4esc_def isSurrogate_def utf16_DecodeRune_def unescape_def expect_def decString_def
  encStrings_def encMember_def encHeader_def field_def json_Marshal_def decInt_def
  decElems.simps decStrings_def decMembers.simps decHeader_def decBody_def decEntry_def
  json_Unmarshal_def int64_def hexdigits_def char_of_def bit_Suc_0_iff

lemma sorted_list_of_fset_empty: "sorted_list_of_fset {||} = []"
  by (simp add: sorted_list_of_fset.rep_eq)

lemma sorted_list_of_fset_finsert:
  "sorted_list_of_fset (finsert x A) = insort x (remove1 x (sorted_list_of_fset A))"
  by (simp add: sorted_list_of_fset.rep_eq sorted_list_of_set_insert_remove
      sorted_list_of_set_remove)

lemmas keys_eval = sorted_list_of_fset_empty sorted_list_of_fset_finsert

lemmas path_eval =
  filepath_Clean_def filepath_Join_def dirPart_def basePart_def filepath_Dir_def
  filepath_Ext_def afterRoot_def below_def walkFiles_def ShardPath_def filePathForKey_def HasPrefix_def

lemmas store_eval =
  os_Open_def io_ReadAll_def os_MkdirAll_def os_WriteFile_def os_Rename_def os_Remove_def
  DiskCache_Get_def DiskCache_Set_def DiskCache_Delete_def DiskCache_Clear_def

lemma hopNames_eq:
  "hopNames =
    {''Connection'', ''Proxy-Connection'', ''Keep-Alive'', ''Proxy-Authenticate'',
     ''Proxy-Authorization'', ''Te'', ''Trailer'', ''Transfer-Encoding'', ''Upgrade''}"
  by (simp add: hopNames_def hopHeaders_def string_eval)

text \<open>
  What the sanitizer does: it removes the nine names of the fixed list (in the canonical
  spelling under which \<^verbatim>\<open>Del\<close> looks them up) and the names that the first \<^verbatim>\<open>Connection\<close>
  value lists as comma-separated tokens; every other name keeps its values; and
  sanitizing a sanitized header set changes nothing.
\<close>

lemma filterHopByHop_first_Connection_value:
  "fmlookup (filterHopByHop h) k =
     (if k \<in> {''Connection'', ''Proxy-Connection'', ''Keep-Alive'', ''Proxy-Authenticate'',
              ''Proxy-Authorization'', ''Te'', ''Trailer'', ''Transfer-Encoding'', ''Upgrade''}
            \<union> nominated (Get h ''Connection'')
      then None else fmlookup h k)
   \<and> filterHopByHop (filterHopByHop h) = filterHopByHop h"
  unfolding hopNames_eq [symmetric]
  by (simp add: lookup_filterHopByHop filterHopByHop_idem)

section \<open>Properties of the store\<close>

lemma basePart_json: "basePart (x @ ''.json'') = basePart x @ ''.json''"
  by (simp add: basePart_def)

lemma Ext_json: "filepath_Ext (x @ ''.json'') = ''.json''"
  by (simp add: filepath_Ext_def basePart_json)

lemma Ext_filePathForKey: "filepath_Ext (filePathForKey c k) = ''.json''"
  by (simp add: filePathForKey_def Ext_json)

lemma clearWalk_Done:
  "\<forall>op. os s op = Done \<Longrightarrow> distinct ps \<Longrightarrow> \<forall>p \<in> set ps. p |\<in>| fmdom (files s) \<Longrightarrow>
    clearWalk s ps n =
      (s\<lparr>files := fmfilter (\<lambda>p. \<not> (p \<in> set ps \<and> filepath_Ext p = ''.json'')) (files s)\<rparr>,
       n + length (filter (\<lambda>p. filepath_Ext p = ''.json'') ps), None)"
proof (induction ps arbitrary: s n)
  case Nil
  then show ?case by simp
next
  case (Cons p ps)
  from Cons.prems obtain d where d: "fmlookup (files s) p = Some d"
    by (auto simp: fmlookup_dom_iff)
  let ?s1 = "s\<lparr>files := fmdrop p (files s)\<rparr>"
  have os1: "\<forall>op. os ?s1 op = Done"
    using Cons.prems by simp
  have dom1: "\<forall>q \<in> set ps. q |\<in>| fmdom (files ?s1)"
    using Cons.prems by auto
  show ?case
  proof (cases "filepath_Ext p = ''.json''")
    case True
    have f: "fmfilter (\<lambda>q. \<not> (q \<in> set ps \<and> filepath_Ext q = ''.json'')) (fmdrop p (files s))
        = fmfilter (\<lambda>q. \<not> (q \<in> set (p # ps) \<and> filepath_Ext q = ''.json'')) (files s)"
      using True by (intro fmap_ext) auto
    have "clearWalk s (p # ps) n = clearWalk ?s1 ps (n + 1)"
      using Cons.prems True d by (simp add: os_Remove_def)
    also have "\<dots> =
      (?s1\<lparr>files := fmfilter (\<lambda>q. \<not> (q \<in> set ps \<and> filepath_Ext q = ''.json'')) (files ?s1)\<rparr>,
       n + 1 + length (filter (\<lambda>p. filepath_Ext p = ''.json'') ps), None)"
      by (rule Cons.IH [OF os1 _ dom1]) (use Cons.prems in simp)
    also have "\<dots> =
      (s\<lparr>files := fmfilter (\<lambda>q. \<not> (q \<in> set (p # ps) \<and> filepath_Ext q = ''.json'')) (files s)\<rparr>,
       n + length (filter (\<lambda>p. filepath_Ext p = ''.json'') (p # ps)), None)"
      using f True by simp
    finally show ?thesis .
  next
    case False
    have f: "fmfilter (\<lambda>q. \<not> (q \<in> set ps \<and> filepath_Ext q = ''.json'')) (files s)
        = fmfilter (\<lambda>q. \<not> (q \<in> set (p # ps) \<and> filepath_Ext q = ''.json'')) (files s)"
      using False by (intro fmap_ext) auto
    have "clearWalk s (p # ps) n = clearWalk s ps n"
      using Cons.prems False by simp
    also have "\<dots> =
      (s\<lparr>files := fmfilter (\<lambda>q. \<not> (q \<in> set ps \<and> filepath_Ext q = ''.json'')) (files s)\<rparr>,
       n + length (filter (\<lambda>p. filepath_Ext p = ''.json'') ps), None)"
      by (rule Cons.IH) (use Cons.prems in auto)
    also have "\<dots> =
      (s\<lparr>files := fmfilter (\<lambda>q. \<not> (q \<in> set (p # ps) \<and> filepath_Ext q = ''.json'')) (files s)\<rparr>,
       n + length (filter (\<lambda>p. filepath_Ext p = ''.json'') (p # ps)), None)"
      using f False by simp
    finally show ?thesis .
  qed
qed

lemma set_walkFiles: "set (walkFiles s root) = {p. p |\<in>| fmdom (files s) \<and> below root p}"
  by (auto simp: walkFiles_def)

lemma distinct_walkFiles: "distinct (walkFiles s root)"
  by (simp add: walkFiles_def sorted_list_of_fset.rep_eq)

lemma Clear_Done:
  assumes "\<forall>op. os s op = Done"
  shows "DiskCache_Clear c s =
    (s\<lparr>files := fmfilter (\<lambda>p. \<not> (below (dir c) p \<and> filepath_Ext p = ''.json'')) (files s)\<rparr>,
     length (filter (\<lambda>p. filepath_Ext p = ''.json'') (walkFiles s (dir c))), None)"
proof -
  have "fmfilter (\<lambda>p. \<not> (p \<in> set (walkFiles s (dir c)) \<and> filepath_Ext p = ''.json'')) (files s)
      = fmfilter (\<lambda>p. \<not> (below (dir c) p \<and> filepath_Ext p = ''.json'')) (files s)"
    by (intro fmap_ext) (auto simp: set_walkFiles fmlookup_dom_iff)
  with clearWalk_Done [OF assms distinct_walkFiles, of s "dir c" 0] assms show ?thesis
    by (simp add: DiskCache_Clear_def set_walkFiles)
qed

lemma Get_absent:
  "fmlookup (files s) (filePathForKey c k) = None \<Longrightarrow> os s (OpOpen (filePathForKey c k)) = Done \<Longrightarrow>
    DiskCache_Get c s k = (None, False, None)"
  by (simp add: DiskCache_Get_def os_Open_def)

lemma path_example: "filePathForKey c_example key_example = path_example"
  by (simp add: c_example_def key_example_def path_example_def path_eval)

lemma marshal_example: "json_Marshal e_example = text_example"
  by (simp add: e_example_def text_example_def json_Marshal_def encHeader_def keys_eval)
    (simp add: json_eval string_eval header_eval)

lemma unmarshal_example: "json_Unmarshal text_example = Inr e_example"
  by (simp add: e_example_def text_example_def json_eval string_eval header_eval)

lemma unmarshal_bad: "json_Unmarshal ''{'' = Inl ErrJSON"
  by (simp add: json_eval string_eval)

text \<open>
  Claim C6.  \<^verbatim>\<open>Get\<close> returns nothing and no error when no file stands at the key's path;
  the decoded entry when the file there can be opened, read and decoded; and an error,
  not the absent result, when a file is there and opening, reading or decoding fails.
\<close>

theorem Get_entry_absent_or_error:
  "(os s (OpOpen (filePathForKey c key)) = Done \<and> fmlookup (files s) (filePathForKey c key) = None
      \<longrightarrow> DiskCache_Get c s key = (None, False, None))
   \<and> (os s (OpOpen (filePathForKey c key)) = Done \<and> os s (OpRead (filePathForKey c key)) = Done
      \<and> fmlookup (files s) (filePathForKey c key) = Some data \<and> json_Unmarshal data = Inr e
      \<longrightarrow> DiskCache_Get c s key = (Some e, True, None))
   \<and> (fmlookup (files s) (filePathForKey c key) = Some data
      \<and> (os s (OpOpen (filePathForKey c key)) \<noteq> Done \<or> os s (OpRead (filePathForKey c key)) \<noteq> Done
          \<or> json_Unmarshal data = Inl err)
      \<longrightarrow> (\<exists>err'. DiskCache_Get c s key = (None, False, Some err')))"
  by (auto simp: DiskCache_Get_def os_Open_def io_ReadAll_def split: sum.splits)

theorem Get_entry_absent_or_error_witness:
  "DiskCache_Get c_example fs_empty key_example = (None, False, None)
   \<and> DiskCache_Get c_example fs_one key_example = (Some e_example, True, None)
   \<and> (\<exists>err'. DiskCache_Get c_example fs_bad key_example = (None, False, Some err'))"
proof -
  have a: "os fs_empty (OpOpen (filePathForKey c_example key_example)) = Done
      \<and> fmlookup (files fs_empty) (filePathForKey c_example key_example) = None"
    by (simp add: fs_empty_def)
  have b: "os fs_one (OpOpen (filePathForKey c_example key_example)) = Done
      \<and> os fs_one (OpRead (filePathForKey c_example key_example)) = Done
      \<and> fmlookup (files fs_one) (filePathForKey c_example key_example) = Some text_example
      \<and> json_Unmarshal text_example = Inr e_example"
    by (simp add: fs_one_def path_example unmarshal_example)
  have c: "fmlookup (files fs_bad) (filePathForKey c_example key_example) = Some ''{''
      \<and> json_Unmarshal ''{'' = Inl ErrJSON"
    by (simp add: fs_bad_def path_example unmarshal_bad)
  show ?thesis
    using Get_entry_absent_or_error [of fs_empty c_example key_example]
      Get_entry_absent_or_error [of fs_one c_example key_example text_example e_example]
      Get_entry_absent_or_error [of fs_bad c_example key_example "''{''" _ ErrJSON] a b c
    by blast
qed

text \<open>
  Claim C9.  When the system refuses no call, \<^verbatim>\<open>Clear\<close> removes exactly the files below
  the cache root whose extension is \<^verbatim>\<open>.json\<close>, leaves every other file as it is, and
  returns their number without an error.  For a store whose \<^verbatim>\<open>.json\<close> files below the root
  are the files of \<open>N\<close> keys the count is \<open>N\<close>, and afterwards \<^verbatim>\<open>Get\<close> finds no entry for any
  key whose file lies below the root.
\<close>

theorem Clear_removes_entry_files:
  assumes "\<forall>op. os s op = Done"
  shows "\<exists>s' n. DiskCache_Clear c s = (s', n, None)
    \<and> n = length (filter (\<lambda>p. filepath_Ext p = ''.json'') (walkFiles s (dir c)))
    \<and> (\<forall>p. fmlookup (files s') p =
          (if below (dir c) p \<and> filepath_Ext p = ''.json'' then None else fmlookup (files s) p))
    \<and> (\<forall>ks. distinct (map (filePathForKey c) ks)
          \<and> set (map (filePathForKey c) ks)
              = {p. p |\<in>| fmdom (files s) \<and> below (dir c) p \<and> filepath_Ext p = ''.json''}
          \<longrightarrow> n = length ks)
    \<and> (\<forall>k. below (dir c) (filePathForKey c k) \<longrightarrow> DiskCache_Get c s' k = (None, False, None))"
proof -
  let ?s' = "s\<lparr>files := fmfilter (\<lambda>p. \<not> (below (dir c) p \<and> filepath_Ext p = ''.json'')) (files s)\<rparr>"
  let ?n = "length (filter (\<lambda>p. filepath_Ext p = ''.json'') (walkFiles s (dir c)))"
  have 1: "DiskCache_Clear c s = (?s', ?n, None)"
    by (rule Clear_Done [OF assms])
  have 2: "fmlookup (files ?s') p =
      (if below (dir c) p \<and> filepath_Ext p = ''.json'' then None else fmlookup (files s) p)" for p
    by simp
  have 3: "?n = length ks"
    if d: "distinct (map (filePathForKey c) ks)"
      and e: "set (map (filePathForKey c) ks)
        = {p. p |\<in>| fmdom (files s) \<and> below (dir c) p \<and> filepath_Ext p = ''.json''}" for ks
  proof -
    have "distinct (filter (\<lambda>p. filepath_Ext p = ''.json'') (walkFiles s (dir c)))"
      by (simp add: distinct_walkFiles)
    moreover have "set (filter (\<lambda>p. filepath_Ext p = ''.json'') (walkFiles s (dir c)))
        = set (map (filePathForKey c) ks)"
      unfolding e by (auto simp: set_walkFiles)
    ultimately have "?n = card (set (map (filePathForKey c) ks))"
      by (metis distinct_card)
    also have "\<dots> = length ks"
      using d by (metis distinct_card length_map)
    finally show ?thesis .
  qed
  have 4: "DiskCache_Get c ?s' k = (None, False, None)" if "below (dir c) (filePathForKey c k)" for k
    by (rule Get_absent) (use that assms in \<open>simp_all add: Ext_filePathForKey\<close>)
  from 1 2 3 4 show ?thesis
    by blast
qed


lemma walk_example:
  "walkFiles fs_two (dir c_example) =
    [path_example, ''/cache/ff/00/ff00.json'', ''/cache/notes.txt'']"
  by (simp add: fs_two_def c_example_def path_example_def walkFiles_def below_def
      afterRoot_def filepath_Clean_def HasPrefix_def keys_eval)

theorem Clear_removes_entry_files_witness:
  "\<exists>s'. DiskCache_Clear c_example fs_two = (s', 2, None)
    \<and> fmlookup (files s') ''/cache/notes.txt'' = Some ''memo''
    \<and> fmlookup (files s') ''/other/x.json'' = Some ''{}''
    \<and> fmlookup (files s') path_example = None
    \<and> DiskCache_Get c_example s' key_example = (None, False, None)"
proof -
  have os: "\<forall>op. os fs_two op = Done"
    by (simp add: fs_two_def)
  have n: "length (filter (\<lambda>p. filepath_Ext p = ''.json'') (walkFiles fs_two (dir c_example))) = 2"
    by (simp add: walk_example path_example_def filepath_Ext_def basePart_def)
  have b: "below (dir c_example) (filePathForKey c_example key_example)"
    by (simp add: path_example) (simp add: c_example_def path_example_def below_def
        afterRoot_def filepath_Clean_def HasPrefix_def)
  have e: "\<not> below (dir c_example) ''/other/x.json''"
    "filepath_Ext ''/cache/notes.txt'' \<noteq> ''.json''"
    "below (dir c_example) path_example" "filepath_Ext path_example = ''.json''"
    by (simp_all add: c_example_def path_example_def below_def afterRoot_def filepath_Clean_def
        HasPrefix_def filepath_Ext_def basePart_def)
  have f: "fmlookup (files fs_two) ''/cache/notes.txt'' = Some ''memo''"
    "fmlookup (files fs_two) ''/other/x.json'' = Some ''{}''"
    by (simp_all add: fs_two_def path_example_def)
  from Clear_removes_entry_files [OF os, of c_example] n b e f show ?thesis
    by (metis (no_types, lifting))
qed


section \<open>Properties of the handler\<close>

lemma lookup_foldl_Add:
  "fmlookup (foldl (\<lambda>d v. Add d k v) d vs) k' =
    (if k' = CanonicalMIMEHeaderKey k \<and> vs \<noteq> [] then Some (Values d k' @ vs) else fmlookup d k')"
proof (induction vs arbitrary: d)
  case Nil
  show ?case by simp
next
  case (Cons v vs)
  show ?case
    unfolding foldl_Cons Cons.IH
    by (auto simp: Add_def Values_def Let_def)
qed

lemma lookup_copy_keys:
  assumes "distinct ks" "\<forall>k \<in> set ks. CanonicalMIMEHeaderKey k = k"
    "\<forall>k \<in> set ks. fmlookup d k = None"
  shows "fmlookup (foldl (\<lambda>d k. foldl (\<lambda>d' v. Add d' k v) d (Values src k)) d ks) k' =
    (if k' \<in> set ks \<and> Values src k' \<noteq> [] then Some (Values src k') else fmlookup d k')"
  using assms
proof (induction ks arbitrary: d)
  case Nil
  show ?case by simp
next
  case (Cons k ks)
  let ?d1 = "foldl (\<lambda>d' v. Add d' k v) d (Values src k)"
  have c: "CanonicalMIMEHeaderKey k = k"
    using Cons.prems by simp
  have d1: "\<forall>q \<in> set ks. fmlookup ?d1 q = None"
    using Cons.prems c by (auto simp: lookup_foldl_Add)
  have "fmlookup (foldl (\<lambda>d k. foldl (\<lambda>d' v. Add d' k v) d (Values src k)) ?d1 ks) k' =
    (if k' \<in> set ks \<and> Values src k' \<noteq> [] then Some (Values src k') else fmlookup ?d1 k')"
    by (rule Cons.IH) (use Cons.prems d1 in auto)
  then show ?case
    using Cons.prems c by (auto simp: lookup_foldl_Add Values_def)
qed

lemma lookup_copyHeaders:
  assumes "rangesOver L src" "canonicalNames src"
  shows "fmlookup (copyHeaders L fmempty src) k =
    (if Values src k = [] then None else Some (Values src k))"
proof -
  have "fmlookup (copyHeaders L fmempty src) k =
    (if k \<in> set (mapOrder L src) \<and> Values src k \<noteq> [] then Some (Values src k)
     else fmlookup fmempty k)"
    unfolding copyHeaders_def
    by (rule lookup_copy_keys) (use assms in \<open>auto simp: rangesOver_def canonicalNames_def\<close>)
  moreover have "Values src k = []" if "k \<notin> set (mapOrder L src)"
    using that assms by (auto simp: rangesOver_def Values_def fmlookup_dom_iff split: option.splits)
  ultimately show ?thesis
    by auto
qed


lemma canonical_literals:
  "CanonicalMIMEHeaderKey ''X-Cache'' = ''X-Cache''"
  "CanonicalMIMEHeaderKey ''Content-Length'' = ''Content-Length''"
  "CanonicalMIMEHeaderKey ''Connection'' = ''Connection''"
  "CanonicalMIMEHeaderKey ''Cache-Control'' = ''Cache-Control''"
  by (simp_all add: string_eval)

lemma X_Cache_not_hop: "''X-Cache'' \<notin> hopNames" "''Content-Length'' \<notin> hopNames"
  by (simp_all add: hopNames_eq)

lemma canonicalNames_mono:
  "canonicalNames h \<Longrightarrow> (\<And>k. fmlookup h k = None \<Longrightarrow> fmlookup h' k = None) \<Longrightarrow> canonicalNames h'"
  unfolding canonicalNames_def by (metis fmdom_notI fmdom_notD)

lemma canonicalNames_filterHopByHop: "canonicalNames h \<Longrightarrow> canonicalNames (filterHopByHop h)"
  by (erule canonicalNames_mono) (simp add: lookup_filterHopByHop)

lemma lookup_foldl_delField_None:
  "fmlookup h k = None \<Longrightarrow> fmlookup (foldl delField h fs) k = None"
  by (induction fs arbitrary: h) (auto simp: delField_def Del_def)

lemma lookup_foldl_values_None:
  "fmlookup h k = None \<Longrightarrow>
    fmlookup (foldl (\<lambda>h' v. foldl delField h' (Split v CHR '','')) h vs) k = None"
  by (induction vs arbitrary: h) (auto simp: lookup_foldl_delField_None)

lemma lookup_removeHopByHopHeaders_None:
  "fmlookup h k = None \<Longrightarrow> fmlookup (removeHopByHopHeaders h) k = None"
  by (simp add: removeHopByHopHeaders_def lookup_foldl_Del lookup_foldl_values_None)

lemma canonicalNames_stripped: "canonicalNames (res_Header res) \<Longrightarrow> canonicalNames (res_Header (stripped res))"
  by (auto simp: stripped_def elim!: canonicalNames_mono intro: lookup_removeHopByHopHeaders_None)

lemma canonicalNames_Set:
  "canonicalNames h \<Longrightarrow> CanonicalMIMEHeaderKey (CanonicalMIMEHeaderKey k) = CanonicalMIMEHeaderKey k \<Longrightarrow>
    canonicalNames (Set h k v)"
  by (auto simp: canonicalNames_def Set_def)

lemma Get_Set_other:
  "CanonicalMIMEHeaderKey k' \<noteq> CanonicalMIMEHeaderKey k \<Longrightarrow> Get (Set h k v) k' = Get h k'"
  by (simp add: Get_def Set_def)

lemma Get_shape:
  "(\<exists>err. DiskCache_Get c s key = (None, False, err)) \<or> (\<exists>e. DiskCache_Get c s key = (Some e, True, None))"
  by (auto simp: DiskCache_Get_def split: sum.splits option.splits)

lemma handler_hit:
  "cacheEligible r \<Longrightarrow> BuildCacheKey L ob r = Inr key \<Longrightarrow> DiskCache_Get c s key = (Some ent, True, e) \<Longrightarrow>
    handler L ob target origin (Some c) s r = (serveHit L ent, s, [CacheGet key])"
  by (simp add: handler_def)

lemma handler_miss:
  assumes "cacheEligible r" "BuildCacheKey L ob r = Inr key" "fst (DiskCache_Get c s key) = None"
  shows "handler L ob target origin (Some c) s r =
    (case serveMiss L target origin c s key r of (out, s1, ev) \<Rightarrow> (out, s1, CacheGet key # ev))"
proof -
  from Get_shape [of c s key] assms(3) obtain err where "DiskCache_Get c s key = (None, False, err)"
    by auto
  with assms show ?thesis
    by (simp add: handler_def)
qed

lemma handler_base:
  "\<not> cacheEligible r \<Longrightarrow> handler L ob target origin co s r = serveBase L target origin s r"
  by (simp add: handler_def split: option.splits)

lemma respond_final:
  "200 \<le> code \<Longrightarrow> code \<le> 999 \<Longrightarrow>
    respond code h b = Responded \<lparr>w_Status = code, w_Header = h, w_Body = b\<rparr>"
  by (simp add: respond_def)

lemma StatusCode_stripped: "StatusCode (stripped res) = StatusCode res"
  "res_Body (stripped res) = res_Body res" "BodyErr (stripped res) = BodyErr res"
  by (simp_all add: stripped_def)

text \<open>The headers the client gets on a miss.\<close>

lemma lookup_relay_miss:
  assumes "rangesOver L (Set (filterHopByHop h) ''X-Cache'' ''MISS'')" "canonicalNames h"
  shows "fmlookup (copyHeaders L fmempty (Set (filterHopByHop h) ''X-Cache'' ''MISS'')) ''X-Cache''
    = Some [''MISS'']"
proof -
  have "canonicalNames (Set (filterHopByHop h) ''X-Cache'' ''MISS'')"
    using assms(2) by (simp add: canonicalNames_Set canonicalNames_filterHopByHop canonical_literals)
  from lookup_copyHeaders [OF assms(1) this] show ?thesis
    by (simp add: Values_def Set_def canonical_literals)
qed


lemma serveMiss_no_store:
  assumes org: "origin (director L target r) = Some res"
    and ns: "resNoStore (filterHopByHop (res_Header (stripped res)))"
  shows "serveMiss L target origin c s key r =
    (relay L ((stripped res)\<lparr>res_Header := Set (filterHopByHop (res_Header (stripped res))) ''X-Cache'' ''MISS''\<rparr>),
     s, [OriginCall (director L target r)])"
proof -
  have "resNoStore (Set (filterHopByHop (res_Header (stripped res))) ''X-Cache'' ''MISS'')"
    using ns by (simp add: resNoStore_def Get_Set_other canonical_literals)
  with org show ?thesis
    by (simp add: serveMiss_def modifyResponseMiss_def Let_def)
qed

lemma serveMiss_store:
  assumes org: "origin (director L target r) = Some res"
    and ns: "\<not> resNoStore (filterHopByHop (res_Header (stripped res)))"
    and be: "\<not> BodyErr res"
  shows "serveMiss L target origin c s key r =
    (relay L ((stripped res)\<lparr>res_Header :=
        Set (Set (filterHopByHop (res_Header (stripped res))) ''X-Cache'' ''MISS'') ''Content-Length''
          (showInt (int (length (res_Body res))))\<rparr>),
     fst (DiskCache_Set c s key (Some (missEntry (stripped res)))),
     [OriginCall (director L target r), CacheSet key (missEntry (stripped res))])"
proof -
  have "\<not> resNoStore (Set (filterHopByHop (res_Header (stripped res))) ''X-Cache'' ''MISS'')"
    using ns by (simp add: resNoStore_def Get_Set_other canonical_literals)
  with org be show ?thesis
    by (simp add: serveMiss_def modifyResponseMiss_def Let_def StatusCode_stripped)
qed

lemma relay_X_Cache_MISS:
  assumes ro: "\<forall>h. rangesOver L h" and cn: "canonicalNames (res_Header res)"
    and st: "200 \<le> StatusCode res" "StatusCode res \<le> 999"
  shows "\<exists>w. relay L ((stripped res)\<lparr>res_Header := Set (filterHopByHop (res_Header (stripped res))) ''X-Cache'' ''MISS''\<rparr>) = Responded w
      \<and> fmlookup (w_Header w) ''X-Cache'' = Some [''MISS'']
      \<and> w_Status w = StatusCode res \<and> w_Body w = res_Body res"
  using lookup_relay_miss [of L "res_Header (stripped res)"] ro cn st
  by (simp add: relay_def respond_final StatusCode_stripped canonicalNames_stripped)

lemma relay_X_Cache_MISS_stored:
  assumes ro: "\<forall>h. rangesOver L h" and cn: "canonicalNames (res_Header res)"
    and st: "200 \<le> StatusCode res" "StatusCode res \<le> 999"
  shows "\<exists>w. relay L ((stripped res)\<lparr>res_Header :=
        Set (Set (filterHopByHop (res_Header (stripped res))) ''X-Cache'' ''MISS'') ''Content-Length'' n\<rparr>) = Responded w
      \<and> fmlookup (w_Header w) ''X-Cache'' = Some [''MISS'']
      \<and> w_Status w = StatusCode res \<and> w_Body w = res_Body res"
proof -
  let ?h = "Set (Set (filterHopByHop (res_Header (stripped res))) ''X-Cache'' ''MISS'') ''Content-Length'' n"
  have "canonicalNames ?h"
    using cn by (simp add: canonicalNames_Set canonicalNames_filterHopByHop canonical_literals
        canonicalNames_stripped)
  from lookup_copyHeaders [OF _ this, of L "''X-Cache''"] ro
  have "fmlookup (copyHeaders L fmempty ?h) ''X-Cache'' = Some [''MISS'']"
    by (simp add: Values_def Set_def canonical_literals)
  then show ?thesis
    using st by (simp add: relay_def respond_final StatusCode_stripped)
qed

text \<open>
  What the code does about \<^verbatim>\<open>no-store\<close>: when a cache-eligible request misses and the
  origin's response, as sanitized, carries \<^verbatim>\<open>no-store\<close> in its first \<^verbatim>\<open>Cache-Control\<close> value,
  the response is relayed with \<^verbatim>\<open>X-Cache: MISS\<close>, the store is not written, and an identical
  request is handled in the same way again.
\<close>

lemma no_store_in_first_value_is_not_stored:
  assumes el: "cacheEligible r" and key: "BuildCacheKey L ob r = Inr key"
    and miss: "fst (DiskCache_Get c s key) = None"
    and org: "origin (director L target r) = Some res"
    and ns: "resNoStore (filterHopByHop (res_Header (stripped res)))"
    and cn: "canonicalNames (res_Header res)" and ro: "\<forall>h. rangesOver L h"
    and st: "200 \<le> StatusCode res" "StatusCode res \<le> 999"
  shows "\<exists>w s'. handler L ob target origin (Some c) s r
        = (Responded w, s', [CacheGet key, OriginCall (director L target r)])
      \<and> fmlookup (w_Header w) ''X-Cache'' = Some [''MISS'']
      \<and> w_Status w = StatusCode res \<and> w_Body w = res_Body res
      \<and> s' = s
      \<and> DiskCache_Get c s' key = DiskCache_Get c s key
      \<and> handler L ob target origin (Some c) s' r = handler L ob target origin (Some c) s r"
  using relay_X_Cache_MISS [OF ro cn st]
  by (auto simp: handler_miss [OF el key miss]
      serveMiss_no_store [of origin L target r res, OF org ns])


lemma serveHit_lookup:
  assumes ro: "\<forall>h. rangesOver L h" and cn: "canonicalNames (Header ent)"
    and nc: "fmlookup (Header ent) ''Connection'' = None"
    and st: "200 \<le> Status ent" "Status ent \<le> 999"
  shows "\<exists>w. serveHit L ent = Responded w \<and> w_Status w = Status ent \<and> w_Body w = Body ent
    \<and> (\<forall>k. fmlookup (w_Header w) k =
          (if k \<in> hopNames then None
           else if k = ''X-Cache'' then Some [''HIT'']
           else if Values (Header ent) k = [] then None
           else Some (Values (Header ent) k)))"
proof -
  let ?h0 = "copyHeaders L fmempty (Header ent)"
  have l0: "fmlookup ?h0 k = (if Values (Header ent) k = [] then None else Some (Values (Header ent) k))"
    for k
    using ro cn by (simp add: lookup_copyHeaders)
  have "Get (Set ?h0 ''X-Cache'' ''HIT'') ''Connection'' = Get ?h0 ''Connection''"
    by (simp add: Get_Set_other canonical_literals)
  also have "\<dots> = []"
    using nc by (simp add: Get_def canonical_literals l0 Values_def)
  finally have g: "Get (Set ?h0 ''X-Cache'' ''HIT'') ''Connection'' = []" .
  have "fmlookup (filterHopByHop (Set ?h0 ''X-Cache'' ''HIT'')) k =
      (if k \<in> hopNames then None
       else if k = ''X-Cache'' then Some [''HIT'']
       else if Values (Header ent) k = [] then None
       else Some (Values (Header ent) k))" for k
    unfolding lookup_filterHopByHop g nominated_Nil
    by (simp add: Set_def canonical_literals l0 X_Cache_not_hop)
  then show ?thesis
    using st by (simp add: serveHit_def respond_final)
qed

lemma serveBase_lookup:
  assumes ro: "\<forall>h. rangesOver L h" and cn: "canonicalNames (res_Header res)"
    and org: "origin (director L target r) = Some res"
    and st: "200 \<le> StatusCode res" "StatusCode res \<le> 999"
  shows "\<exists>w. serveBase L target origin s r = (Responded w, s, [OriginCall (director L target r)])
    \<and> w_Status w = StatusCode res \<and> w_Body w = res_Body res
    \<and> (\<forall>k. fmlookup (w_Header w) k =
          (if Values (filterHopByHop (res_Header (stripped res))) k = [] then None
           else Some (Values (filterHopByHop (res_Header (stripped res))) k)))"
  using ro cn st org
  by (simp add: serveBase_def relay_def modifyResponseBase_def respond_final StatusCode_stripped
      lookup_copyHeaders canonicalNames_filterHopByHop canonicalNames_stripped)

lemma Values_sanitized_None:
  "fmlookup h k = None \<Longrightarrow> Values (filterHopByHop (res_Header (stripped (res\<lparr>res_Header := h\<rparr>)))) k = []"
  by (simp add: Values_def lookup_filterHopByHop stripped_def lookup_removeHopByHopHeaders_None)

lemma badGateway_lookup:
  "\<exists>w. badGateway = Responded w \<and> w_Status w = 502 \<and> fmlookup (w_Header w) ''X-Cache'' = None"
  by (simp add: badGateway_def respond_def)

text \<open>
  Claim C3, amended.  With a store configured, a cache-eligible request is answered with
  \<^verbatim>\<open>X-Cache: HIT\<close> when the store has an entry for its key (an entry as the proxy writes
  them: canonical names, no \<^verbatim>\<open>Connection\<close>, a final status), and with \<^verbatim>\<open>X-Cache: MISS\<close>
  when it has none and the origin answers (with a body that can be read, unless the
  answer is not to be stored).  To a request that is not eligible the proxy adds no
  \<^verbatim>\<open>X-Cache\<close>: the client gets the values of the origin's sanitized response, none if the
  origin sent none; and when the origin gives no answer the client gets status 502
  without \<^verbatim>\<open>X-Cache\<close>.
\<close>

theorem X_Cache_follows_eligibility:
  assumes ro: "\<forall>h. rangesOver L h"
  shows
    "(cacheEligible r \<and> BuildCacheKey L ob r = Inr key \<and> DiskCache_Get c s key = (Some ent, True, e)
        \<and> canonicalNames (Header ent) \<and> fmlookup (Header ent) ''Connection'' = None
        \<and> 200 \<le> Status ent \<and> Status ent \<le> 999
      \<longrightarrow> (\<exists>w. fst (handler L ob target origin (Some c) s r) = Responded w
            \<and> fmlookup (w_Header w) ''X-Cache'' = Some [''HIT'']))
     \<and> (cacheEligible r \<and> BuildCacheKey L ob r = Inr key \<and> fst (DiskCache_Get c s key) = None
        \<and> origin (director L target r) = Some res \<and> canonicalNames (res_Header res)
        \<and> 200 \<le> StatusCode res \<and> StatusCode res \<le> 999
        \<and> (resNoStore (filterHopByHop (res_Header (stripped res))) \<or> \<not> BodyErr res)
      \<longrightarrow> (\<exists>w. fst (handler L ob target origin (Some c) s r) = Responded w
            \<and> fmlookup (w_Header w) ''X-Cache'' = Some [''MISS'']))
     \<and> (\<not> cacheEligible r \<and> origin (director L target r) = Some res
        \<and> canonicalNames (res_Header res) \<and> 200 \<le> StatusCode res \<and> StatusCode res \<le> 999
      \<longrightarrow> (\<exists>w. fst (handler L ob target origin co s r) = Responded w
            \<and> fmlookup (w_Header w) ''X-Cache''
                = (if Values (filterHopByHop (res_Header (stripped res))) ''X-Cache'' = [] then None
                   else Some (Values (filterHopByHop (res_Header (stripped res))) ''X-Cache''))
            \<and> (fmlookup (res_Header res) ''X-Cache'' = None
                  \<longrightarrow> fmlookup (w_Header w) ''X-Cache'' = None)))
     \<and> (\<not> cacheEligible r \<and> origin (director L target r) = None
      \<longrightarrow> (\<exists>w. fst (handler L ob target origin co s r) = Responded w \<and> w_Status w = 502
            \<and> fmlookup (w_Header w) ''X-Cache'' = None))"
proof (intro conjI impI)
  assume a: "cacheEligible r \<and> BuildCacheKey L ob r = Inr key
    \<and> DiskCache_Get c s key = (Some ent, True, e)
    \<and> canonicalNames (Header ent) \<and> fmlookup (Header ent) ''Connection'' = None
    \<and> 200 \<le> Status ent \<and> Status ent \<le> 999"
  then have "handler L ob target origin (Some c) s r = (serveHit L ent, s, [CacheGet key])"
    by (simp add: handler_hit)
  moreover from a serveHit_lookup [OF ro, of ent] obtain w where
    "serveHit L ent = Responded w" "fmlookup (w_Header w) ''X-Cache'' = Some [''HIT'']"
    by (auto simp: X_Cache_not_hop)
  ultimately show "\<exists>w. fst (handler L ob target origin (Some c) s r) = Responded w
      \<and> fmlookup (w_Header w) ''X-Cache'' = Some [''HIT'']"
    by simp
next
  assume a: "cacheEligible r \<and> BuildCacheKey L ob r = Inr key \<and> fst (DiskCache_Get c s key) = None
    \<and> origin (director L target r) = Some res \<and> canonicalNames (res_Header res)
    \<and> 200 \<le> StatusCode res \<and> StatusCode res \<le> 999
    \<and> (resNoStore (filterHopByHop (res_Header (stripped res))) \<or> \<not> BodyErr res)"
  then have h: "handler L ob target origin (Some c) s r =
      (case serveMiss L target origin c s key r of (out, s1, ev) \<Rightarrow> (out, s1, CacheGet key # ev))"
    by (simp add: handler_miss)
  show "\<exists>w. fst (handler L ob target origin (Some c) s r) = Responded w
      \<and> fmlookup (w_Header w) ''X-Cache'' = Some [''MISS'']"
  proof (cases "resNoStore (filterHopByHop (res_Header (stripped res)))")
    case True
    with a relay_X_Cache_MISS [OF ro, of res] show ?thesis
      by (auto simp: h serveMiss_no_store [of origin L target r res])
  next
    case False
    with a relay_X_Cache_MISS_stored [OF ro, of res] show ?thesis
      by (auto simp: h serveMiss_store [of origin L target r res])
  qed
next
  assume a: "\<not> cacheEligible r \<and> origin (director L target r) = Some res
    \<and> canonicalNames (res_Header res) \<and> 200 \<le> StatusCode res \<and> StatusCode res \<le> 999"
  from a serveBase_lookup [OF ro, of res origin target r s] obtain w where
    w: "serveBase L target origin s r = (Responded w, s, [OriginCall (director L target r)])"
      "\<forall>k. fmlookup (w_Header w) k =
          (if Values (filterHopByHop (res_Header (stripped res))) k = [] then None
           else Some (Values (filterHopByHop (res_Header (stripped res))) k))"
    by auto
  have "Values (filterHopByHop (res_Header (stripped res))) ''X-Cache'' = []"
    if "fmlookup (res_Header res) ''X-Cache'' = None"
    using Values_sanitized_None [OF that, of res] by simp
  with a w show "\<exists>w. fst (handler L ob target origin co s r) = Responded w
      \<and> fmlookup (w_Header w) ''X-Cache''
          = (if Values (filterHopByHop (res_Header (stripped res))) ''X-Cache'' = [] then None
             else Some (Values (filterHopByHop (res_Header (stripped res))) ''X-Cache''))
      \<and> (fmlookup (res_Header res) ''X-Cache'' = None \<longrightarrow> fmlookup (w_Header w) ''X-Cache'' = None)"
    by (auto simp: handler_base)
next
  assume a: "\<not> cacheEligible r \<and> origin (director L target r) = None"
  with badGateway_lookup show "\<exists>w. fst (handler L ob target origin co s r) = Responded w
      \<and> w_Status w = 502 \<and> fmlookup (w_Header w) ''X-Cache'' = None"
    by (auto simp: handler_base serveBase_def)
qed


lemma lookup_missEntry:
  "fmlookup (Header (missEntry x)) k =
    (if k = ''Content-Length'' then Some [showInt (int (length (res_Body x)))]
     else if k = ''X-Cache'' then Some [''MISS'']
     else map_option sort (fmlookup (filterHopByHop (res_Header x)) k))"
  by (simp add: missEntry_def CloneHeaders_def Set_def canonical_literals)

lemma canonicalNames_missEntry:
  "canonicalNames (res_Header x) \<Longrightarrow> canonicalNames (Header (missEntry x))"
  unfolding canonicalNames_def
  by (auto simp: fmlookup_dom_iff lookup_missEntry lookup_filterHopByHop canonical_literals
      split: if_splits)

text \<open>
  Claim C10.  On a miss that is stored, the entry handed to \<^verbatim>\<open>Set\<close> is \<open>missEntry\<close> of
  the origin's response: under every name its values are sorted, those of the sanitized
  response in sorted order, and \<^verbatim>\<open>X-Cache\<close> is stored with the value \<^verbatim>\<open>MISS\<close>.  Such an
  entry has canonical names and no \<^verbatim>\<open>Connection\<close>; and a hit on an entry of this form
  serves, under every name that is kept, the values of the entry in the stored order.
\<close>

theorem stored_header_values_sorted:
  assumes ro: "\<forall>h. rangesOver L h"
  shows
    "(cacheEligible r \<and> BuildCacheKey L ob r = Inr key \<and> fst (DiskCache_Get c s key) = None
        \<and> origin (director L target r) = Some res
        \<and> \<not> resNoStore (filterHopByHop (res_Header (stripped res))) \<and> \<not> BodyErr res
      \<longrightarrow> snd (handler L ob target origin (Some c) s r)
          = (fst (DiskCache_Set c s key (Some (missEntry (stripped res)))),
             [CacheGet key, OriginCall (director L target r),
              CacheSet key (missEntry (stripped res))]))
     \<and> (\<forall>k. fmlookup (Header (missEntry x)) k =
          (if k = ''Content-Length'' then Some [showInt (int (length (res_Body x)))]
           else if k = ''X-Cache'' then Some [''MISS'']
           else map_option sort (fmlookup (filterHopByHop (res_Header x)) k)))
     \<and> (\<forall>k vs. fmlookup (Header (missEntry x)) k = Some vs \<longrightarrow> sorted vs)
     \<and> (canonicalNames (res_Header x)
          \<longrightarrow> canonicalNames (Header (missEntry x))
            \<and> fmlookup (Header (missEntry x)) ''Connection'' = None)
     \<and> (cacheEligible r \<and> BuildCacheKey L ob r = Inr key
        \<and> DiskCache_Get c s key = (Some ent, True, e)
        \<and> canonicalNames (Header ent) \<and> fmlookup (Header ent) ''Connection'' = None
        \<and> 200 \<le> Status ent \<and> Status ent \<le> 999
      \<longrightarrow> (\<exists>w. handler L ob target origin (Some c) s r = (Responded w, s, [CacheGet key])
            \<and> fmlookup (w_Header w) ''X-Cache'' = Some [''HIT'']
            \<and> (\<forall>k. k \<notin> hopNames \<and> k \<noteq> ''X-Cache'' \<and> Values (Header ent) k \<noteq> []
                  \<longrightarrow> fmlookup (w_Header w) k = Some (Values (Header ent) k))))"
proof (intro conjI impI allI)
  assume a: "cacheEligible r \<and> BuildCacheKey L ob r = Inr key \<and> fst (DiskCache_Get c s key) = None
    \<and> origin (director L target r) = Some res
    \<and> \<not> resNoStore (filterHopByHop (res_Header (stripped res))) \<and> \<not> BodyErr res"
  then show "snd (handler L ob target origin (Some c) s r)
      = (fst (DiskCache_Set c s key (Some (missEntry (stripped res)))),
         [CacheGet key, OriginCall (director L target r), CacheSet key (missEntry (stripped res))])"
    by (simp add: handler_miss serveMiss_store [of origin L target r res])
next
  fix k
  show "fmlookup (Header (missEntry x)) k =
      (if k = ''Content-Length'' then Some [showInt (int (length (res_Body x)))]
       else if k = ''X-Cache'' then Some [''MISS'']
       else map_option sort (fmlookup (filterHopByHop (res_Header x)) k))"
    by (rule lookup_missEntry)
next
  fix k vs
  assume "fmlookup (Header (missEntry x)) k = Some vs"
  then show "sorted vs"
    by (auto simp: lookup_missEntry split: if_splits)
next
  assume "canonicalNames (res_Header x)"
  then show "canonicalNames (Header (missEntry x))"
    by (rule canonicalNames_missEntry)
next
  show "fmlookup (Header (missEntry x)) ''Connection'' = None"
    using Connection_hop by (simp add: lookup_missEntry lookup_filterHopByHop canonical_literals)
next
  assume a: "cacheEligible r \<and> BuildCacheKey L ob r = Inr key
    \<and> DiskCache_Get c s key = (Some ent, True, e)
    \<and> canonicalNames (Header ent) \<and> fmlookup (Header ent) ''Connection'' = None
    \<and> 200 \<le> Status ent \<and> Status ent \<le> 999"
  then have "handler L ob target origin (Some c) s r = (serveHit L ent, s, [CacheGet key])"
    by (simp add: handler_hit)
  with a serveHit_lookup [OF ro, of ent]
  show "\<exists>w. handler L ob target origin (Some c) s r = (Responded w, s, [CacheGet key])
      \<and> fmlookup (w_Header w) ''X-Cache'' = Some [''HIT'']
      \<and> (\<forall>k. k \<notin> hopNames \<and> k \<noteq> ''X-Cache'' \<and> Values (Header ent) k \<noteq> []
            \<longrightarrow> fmlookup (w_Header w) k = Some (Values (Header ent) k))"
    by (auto simp: X_Cache_not_hop)
qed

text \<open>
  The second half of claim C4: a request that is not eligible goes to the origin and the
  cache is neither read nor written.
\<close>

lemma ineligible_request_bypasses_cache:
  assumes "\<not> cacheEligible r"
  shows "snd (handler L ob target origin co s r) = (s, [OriginCall (director L target r)])"
  using assms by (auto simp: handler_base serveBase_def split: option.splits)


section \<open>Properties of the cache key\<close>

text \<open>
  Claim C5.  The key is a function of the request method, the resolved origin URL and the
  \<^verbatim>\<open>Accept\<close> value alone: two requests equal in these three have the same key, and so
  have two requests that agree on the method, the path, the query string and the
  \<^verbatim>\<open>Accept\<close> value, whatever their other headers and attributes are.
\<close>

theorem BuildCacheKey_deterministic:
  "(Method r1 = Method r2 \<and> resolvedURL L originBase r1 = resolvedURL L originBase r2
      \<and> Get (req_Header r1) ''Accept'' = Get (req_Header r2) ''Accept''
      \<longrightarrow> BuildCacheKey L originBase r1 = BuildCacheKey L originBase r2)
   \<and> (Method r1 = Method r2 \<and> Path (URL r1) = Path (URL r2)
      \<and> RawQuery (URL r1) = RawQuery (URL r2)
      \<and> Get (req_Header r1) ''Accept'' = Get (req_Header r2) ''Accept''
      \<longrightarrow> resolvedURL L originBase r1 = resolvedURL L originBase r2
        \<and> BuildCacheKey L originBase r1 = BuildCacheKey L originBase r2)"
  by (auto simp: BuildCacheKey_def resolvedURL_def resolved_def Let_def split: sum.splits)

lemma key_example: "BuildCacheKey lib_example ''origin'' req_example = Inr key_example"
  by (simp add: BuildCacheKey_def lib_example_def req_example_def url_example_def resolved_def
      singleJoiningSlash_def hex_EncodeToString_def key_example_def string_eval header_eval
      hexdigits_def)

theorem BuildCacheKey_deterministic_witness:
  "BuildCacheKey lib_example ''origin'' req_example = BuildCacheKey lib_example ''origin'' req_other
   \<and> BuildCacheKey lib_example ''origin'' req_example = Inr key_example
   \<and> req_Header req_example \<noteq> req_Header req_other"
proof -
  have a: "Method req_example = Method req_other \<and> Path (URL req_example) = Path (URL req_other)
    \<and> RawQuery (URL req_example) = RawQuery (URL req_other)
    \<and> Get (req_Header req_example) ''Accept'' = Get (req_Header req_other) ''Accept''"
    by (simp add: req_other_def req_example_def Get_def string_eval)
  have "fmlookup (req_Header req_example) ''Cookie'' \<noteq> fmlookup (req_Header req_other) ''Cookie''"
    by (simp add: req_other_def req_example_def)
  then have b: "req_Header req_example \<noteq> req_Header req_other"
    by metis
  show ?thesis
    using BuildCacheKey_deterministic [of req_example req_other lib_example "''origin''"] a b
      key_example
    by simp
qed


section \<open>The handler on the example values\<close>

lemma rangesOver_example: "rangesOver lib_example h"
  by (simp add: rangesOver_def lib_example_def sorted_list_of_fset.rep_eq)

lemma eligible_example: "cacheEligible req_example"
  by (simp add: cacheEligible_def reqNoStore_def containsToken_def req_example_def Get_def
      string_eval)

lemma eligible_two_auth: "cacheEligible req_two_auth"
  by (simp add: cacheEligible_def reqNoStore_def containsToken_def req_two_auth_def
      req_example_def Get_def string_eval)

lemma not_eligible_bearer: "\<not> cacheEligible req_bearer"
  by (simp add: cacheEligible_def req_bearer_def req_example_def Get_def string_eval)

lemma canonical_res_example: "canonicalNames (res_Header res_example)"
  by (simp add: canonicalNames_def res_example_def string_eval)

lemma canonical_res_two_cc: "canonicalNames (res_Header res_two_cc)"
  by (simp add: canonicalNames_def res_two_cc_def string_eval)

lemma miss_empty: "DiskCache_Get c fs_empty key = (None, False, None)"
  by (simp add: DiskCache_Get_def os_Open_def fs_empty_def)

lemma key_two_auth: "BuildCacheKey lib_example ''origin'' req_two_auth = Inr key_example"
  using key_example
  by (simp add: BuildCacheKey_def req_two_auth_def req_example_def resolved_def Get_def
      string_eval lib_example_def)

lemma two_conn: "fmlookup (filterHopByHop h_two_conn) ''X-Foo'' = Some [''1'']"
  "fmlookup h_two_conn ''Connection'' = Some [''close'', ''x-foo'']"
  "''X-Foo'' \<in> nominated ''x-foo''"
  by (simp_all add: h_two_conn_def lookup_filterHopByHop hopNames_eq nominated_def Get_def
      string_eval)

lemma nostore_two_cc: "resNoStore (fmap_of_list [(''Cache-Control'', [''no-store''])])"
  "\<not> resNoStore (filterHopByHop (res_Header (stripped res_two_cc)))"
  "''no-store'' \<in> set (Values (res_Header res_two_cc) ''Cache-Control'')"
  by (simp_all add: resNoStore_def containsToken_def Get_def Values_def res_two_cc_def
      stripped_def lookup_filterHopByHop lookup_removeHopByHopHeaders_None hopNames_eq
      removeHopByHopHeaders_def hopHeaders_def Del_def nominated_def string_eval)


lemma Set_Done:
  assumes "\<forall>op. os s op = Done"
  shows "fmlookup (files (fst (DiskCache_Set c s key (Some e)))) (filePathForKey c key)
      = Some (json_Marshal e)
    \<and> snd (DiskCache_Set c s key (Some e)) = None"
  using assms
  by (simp add: DiskCache_Set_def os_MkdirAll_def os_WriteFile_def os_Rename_def)

lemma handler_miss_stored:
  assumes "cacheEligible r" "BuildCacheKey L ob r = Inr key" "fst (DiskCache_Get c s key) = None"
    "origin (director L target r) = Some res"
    "\<not> resNoStore (filterHopByHop (res_Header (stripped res)))" "\<not> BodyErr res"
  shows "snd (handler L ob target origin (Some c) s r)
      = (fst (DiskCache_Set c s key (Some (missEntry (stripped res)))),
         [CacheGet key, OriginCall (director L target r), CacheSet key (missEntry (stripped res))])"
  using assms by (simp add: handler_miss serveMiss_store [of origin L target r res])

text \<open>
  Claim C8 at a header set with two \<^verbatim>\<open>Connection\<close> values: the second value names
  \<^verbatim>\<open>X-Foo\<close> as a token, and the sanitizer keeps \<^verbatim>\<open>X-Foo\<close>.
\<close>

theorem filterHopByHop_keeps_later_Connection_token:
  "fmlookup h_two_conn ''Connection'' = Some [''close'', ''x-foo'']
   \<and> ''X-Foo'' \<in> nominated ''x-foo''
   \<and> fmlookup (filterHopByHop h_two_conn) ''X-Foo'' = Some [''1'']"
  by (simp add: two_conn)

text \<open>
  Claim C4 at a request with two \<^verbatim>\<open>Authorization\<close> values, the first of them empty: the
  request carries the header, it is cache-eligible all the same, and the origin's
  response to it is written to the store.
\<close>

theorem cacheEligible_with_Authorization_header:
  "fmlookup (req_Header req_two_auth) ''Authorization'' = Some [[], ''Bearer x'']
   \<and> cacheEligible req_two_auth
   \<and> snd (snd (handler lib_example ''origin'' target_example origin_example (Some c_example)
          fs_empty req_two_auth))
      = [CacheGet key_example, OriginCall (director lib_example target_example req_two_auth),
         CacheSet key_example (missEntry (stripped res_example))]"
proof -
  have "\<not> resNoStore (filterHopByHop (res_Header (stripped res_example)))"
    by (simp add: resNoStore_def containsToken_def Get_def res_example_def stripped_def
        lookup_filterHopByHop lookup_removeHopByHopHeaders_None string_eval)
  moreover have "\<not> BodyErr res_example"
    by (simp add: res_example_def)
  moreover have "fst (DiskCache_Get c_example fs_empty key_example) = None"
    by (simp add: miss_empty)
  moreover have "origin_example (director lib_example target_example req_two_auth) = Some res_example"
    by (simp add: origin_example_def)
  ultimately have "snd (handler lib_example ''origin'' target_example origin_example (Some c_example)
      fs_empty req_two_auth)
      = (fst (DiskCache_Set c_example fs_empty key_example (Some (missEntry (stripped res_example)))),
         [CacheGet key_example, OriginCall (director lib_example target_example req_two_auth),
          CacheSet key_example (missEntry (stripped res_example))])"
    using handler_miss_stored [OF eligible_two_auth key_two_auth] by blast
  moreover have "fmlookup (req_Header req_two_auth) ''Authorization'' = Some [[], ''Bearer x'']"
    by (simp add: req_two_auth_def)
  ultimately show ?thesis
    using eligible_two_auth by simp
qed

text \<open>
  Claim C7 at an origin response with two \<^verbatim>\<open>Cache-Control\<close> values, the second of them
  \<^verbatim>\<open>no-store\<close>: the response is written to the store, and its file is there afterwards.
\<close>

theorem no_store_in_later_value_is_stored:
  "''no-store'' \<in> set (Values (res_Header res_two_cc) ''Cache-Control'')
   \<and> cacheEligible req_example
   \<and> snd (snd (handler lib_example ''origin'' target_example (\<lambda>r. Some res_two_cc) (Some c_example)
          fs_empty req_example))
      = [CacheGet key_example, OriginCall (director lib_example target_example req_example),
         CacheSet key_example (missEntry (stripped res_two_cc))]
   \<and> fmlookup (files (fst (snd (handler lib_example ''origin'' target_example
          (\<lambda>r. Some res_two_cc) (Some c_example) fs_empty req_example)))) path_example
      = Some (json_Marshal (missEntry (stripped res_two_cc)))"
proof -
  have "\<not> BodyErr res_two_cc"
    by (simp add: res_two_cc_def)
  moreover have "fst (DiskCache_Get c_example fs_empty key_example) = None"
    by (simp add: miss_empty)
  ultimately have h: "snd (handler lib_example ''origin'' target_example (\<lambda>r. Some res_two_cc)
      (Some c_example) fs_empty req_example)
      = (fst (DiskCache_Set c_example fs_empty key_example (Some (missEntry (stripped res_two_cc)))),
         [CacheGet key_example, OriginCall (director lib_example target_example req_example),
          CacheSet key_example (missEntry (stripped res_two_cc))])"
    using handler_miss_stored [OF eligible_example key_example, of c_example fs_empty
        "\<lambda>r. Some res_two_cc" target_example res_two_cc] nostore_two_cc(2)
    by blast
  have "\<forall>op. os fs_empty op = Done"
    by (simp add: fs_empty_def)
  from Set_Done [OF this, of c_example key_example "missEntry (stripped res_two_cc)"]
  have "fmlookup (files (fst (DiskCache_Set c_example fs_empty key_example
      (Some (missEntry (stripped res_two_cc)))))) path_example
      = Some (json_Marshal (missEntry (stripped res_two_cc)))"
    by (simp add: path_example)
  with h nostore_two_cc(3) eligible_example show ?thesis
    by simp
qed

text \<open>
  Claim C3 as stated fails at a GET request with an \<^verbatim>\<open>Authorization\<close> header: with a store
  configured the response carries no \<^verbatim>\<open>X-Cache\<close>.
\<close>

theorem GET_with_Authorization_has_no_X_Cache:
  "Method req_bearer = ''GET''
   \<and> (\<exists>w. fst (handler lib_example ''origin'' target_example origin_example (Some c_example)
          fs_empty req_bearer) = Responded w
        \<and> fmlookup (w_Header w) ''X-Cache'' = None)"
proof -
  have o: "origin_example (director lib_example target_example req_bearer) = Some res_example"
    by (simp add: origin_example_def)
  have st: "200 \<le> StatusCode res_example" "StatusCode res_example \<le> 999"
    by (simp_all add: res_example_def)
  have ro: "\<forall>h. rangesOver lib_example h"
    by (simp add: rangesOver_example)
  from serveBase_lookup [of lib_example res_example origin_example target_example req_bearer
      fs_empty, OF ro canonical_res_example o st]
  obtain w where w: "serveBase lib_example target_example origin_example fs_empty req_bearer
      = (Responded w, fs_empty, [OriginCall (director lib_example target_example req_bearer)])"
    "\<forall>k. fmlookup (w_Header w) k =
        (if Values (filterHopByHop (res_Header (stripped res_example))) k = [] then None
         else Some (Values (filterHopByHop (res_Header (stripped res_example))) k))"
    by blast
  have "fmlookup (res_Header res_example) ''X-Cache'' = None"
    by (simp add: res_example_def)
  from Values_sanitized_None [OF this, of res_example]
  have "Values (filterHopByHop (res_Header (stripped res_example))) ''X-Cache'' = []"
    by simp
  with w have "fmlookup (w_Header w) ''X-Cache'' = None"
    by simp
  moreover have "Method req_bearer = ''GET''"
    by (simp add: req_bearer_def req_example_def)
  ultimately show ?thesis
    using w(1) not_eligible_bearer by (auto simp: handler_base)
qed

lemma hit_one: "DiskCache_Get c_example fs_one key_example = (Some e_example, True, None)"
  by (simp add: DiskCache_Get_def os_Open_def io_ReadAll_def fs_one_def path_example
      unmarshal_example)

lemma canonical_e_example:
  "canonicalNames (Header e_example)" "fmlookup (Header e_example) ''Connection'' = None"
  "200 \<le> Status e_example" "Status e_example \<le> 999"
  by (simp_all add: canonicalNames_def e_example_def string_eval)

lemma Vary_example:
  "fmlookup (filterHopByHop (res_Header res_example)) ''Vary'' = Some [''b'', ''a'']"
  by (simp add: lookup_filterHopByHop hopNames_eq nominated_def Get_def res_example_def
      string_eval)

lemma no_store_example: "\<not> resNoStore (filterHopByHop (res_Header (stripped res_example)))"
  by (simp add: resNoStore_def containsToken_def Get_def res_example_def stripped_def
      lookup_filterHopByHop lookup_removeHopByHopHeaders_None string_eval)

theorem X_Cache_follows_eligibility_witness:
  "(\<exists>w. fst (handler lib_example ''origin'' target_example origin_example (Some c_example)
          fs_empty req_example) = Responded w
       \<and> fmlookup (w_Header w) ''X-Cache'' = Some [''MISS''])
   \<and> (\<exists>w. fst (handler lib_example ''origin'' target_example origin_example (Some c_example)
          fs_one req_example) = Responded w
       \<and> fmlookup (w_Header w) ''X-Cache'' = Some [''HIT''])
   \<and> (\<exists>w. fst (handler lib_example ''origin'' target_example origin_example (Some c_example)
          fs_empty req_bearer) = Responded w
       \<and> fmlookup (w_Header w) ''X-Cache'' = None)"
proof -
  have ro: "\<forall>h. rangesOver lib_example h"
    by (simp add: rangesOver_example)
  have st: "200 \<le> StatusCode res_example \<and> StatusCode res_example \<le> 999
      \<and> \<not> BodyErr res_example \<and> fmlookup (res_Header res_example) ''X-Cache'' = None"
    by (simp add: res_example_def)
  have o: "origin_example (director lib_example target_example r) = Some res_example" for r
    by (simp add: origin_example_def)
  have m: "fst (DiskCache_Get c_example fs_empty key_example) = None"
    by (simp add: miss_empty)
  note t = X_Cache_follows_eligibility [OF ro, where ob = "''origin''" and key = key_example
      and c = c_example and target = target_example and origin = origin_example
      and res = res_example and ent = e_example and e = None and co = "Some c_example"]
  from t [where r = req_example and s = fs_empty] eligible_example key_example m o
    canonical_res_example st
  have 1: "\<exists>w. fst (handler lib_example ''origin'' target_example origin_example (Some c_example)
        fs_empty req_example) = Responded w
      \<and> fmlookup (w_Header w) ''X-Cache'' = Some [''MISS'']"
    by blast
  from t [where r = req_example and s = fs_one] eligible_example key_example hit_one
    canonical_e_example
  have 2: "\<exists>w. fst (handler lib_example ''origin'' target_example origin_example (Some c_example)
        fs_one req_example) = Responded w
      \<and> fmlookup (w_Header w) ''X-Cache'' = Some [''HIT'']"
    by blast
  have "\<not> cacheEligible req_bearer
      \<and> origin_example (director lib_example target_example req_bearer) = Some res_example
      \<and> canonicalNames (res_Header res_example)
      \<and> 200 \<le> StatusCode res_example \<and> StatusCode res_example \<le> 999"
    using not_eligible_bearer o [of req_bearer] canonical_res_example st by simp
  from t [where r = req_bearer and s = fs_empty, THEN conjunct2, THEN conjunct2,
      THEN conjunct1, THEN mp, OF this]
  obtain w where
    "fst (handler lib_example ''origin'' target_example origin_example (Some c_example)
        fs_empty req_bearer) = Responded w"
    "fmlookup (res_Header res_example) ''X-Cache'' = None
      \<longrightarrow> fmlookup (w_Header w) ''X-Cache'' = None"
    by (elim exE conjE)
  with st have 3: "\<exists>w. fst (handler lib_example ''origin'' target_example origin_example (Some c_example)
        fs_empty req_bearer) = Responded w
      \<and> fmlookup (w_Header w) ''X-Cache'' = None"
    by blast
  from 1 2 3 show ?thesis
    by blast
qed

theorem stored_header_values_sorted_witness:
  "fmlookup (res_Header res_example) ''Vary'' = Some [''b'', ''a'']
   \<and> fmlookup (Header (missEntry res_example)) ''Vary'' = Some [''a'', ''b'']
   \<and> fmlookup (Header (missEntry res_example)) ''X-Cache'' = Some [''MISS'']
   \<and> snd (handler lib_example ''origin'' target_example origin_example (Some c_example)
        fs_empty req_example)
      = (fst (DiskCache_Set c_example fs_empty key_example (Some (missEntry (stripped res_example)))),
         [CacheGet key_example, OriginCall (director lib_example target_example req_example),
          CacheSet key_example (missEntry (stripped res_example))])
   \<and> (\<exists>w. handler lib_example ''origin'' target_example origin_example (Some c_example)
          fs_one req_example = (Responded w, fs_one, [CacheGet key_example])
       \<and> fmlookup (w_Header w) ''X-Cache'' = Some [''HIT''])"
proof -
  have ro: "\<forall>h. rangesOver lib_example h"
    by (simp add: rangesOver_example)
  have o: "origin_example (director lib_example target_example req_example) = Some res_example"
    by (simp add: origin_example_def)
  have m: "fst (DiskCache_Get c_example fs_empty key_example) = None"
    by (simp add: miss_empty)
  have b: "\<not> BodyErr res_example" "fmlookup (res_Header res_example) ''Vary'' = Some [''b'', ''a'']"
    by (simp_all add: res_example_def)
  have s: "sort [''b'', ''a''] = [''a'', ''b'']"
    by simp
  note t = stored_header_values_sorted [OF ro, where ob = "''origin''" and key = key_example
      and c = c_example and target = target_example and origin = origin_example
      and res = res_example and x = res_example and r = req_example]
  from t [where s = fs_empty and ent = e_example and e = None] eligible_example key_example m o
    no_store_example b
  have 1: "snd (handler lib_example ''origin'' target_example origin_example (Some c_example)
        fs_empty req_example)
      = (fst (DiskCache_Set c_example fs_empty key_example (Some (missEntry (stripped res_example)))),
         [CacheGet key_example, OriginCall (director lib_example target_example req_example),
          CacheSet key_example (missEntry (stripped res_example))])"
    by blast
  from t [where s = fs_empty and ent = e_example and e = None]
  have "\<forall>k. fmlookup (Header (missEntry res_example)) k =
      (if k = ''Content-Length'' then Some [showInt (int (length (res_Body res_example)))]
       else if k = ''X-Cache'' then Some [''MISS'']
       else map_option sort (fmlookup (filterHopByHop (res_Header res_example)) k))"
    by blast
  then have 2: "fmlookup (Header (missEntry res_example)) ''Vary'' = Some [''a'', ''b'']
      \<and> fmlookup (Header (missEntry res_example)) ''X-Cache'' = Some [''MISS'']"
    using Vary_example s by simp
  from t [where s = fs_one and ent = e_example and e = None] eligible_example key_example hit_one
    canonical_e_example
  have 3: "\<exists>w. handler lib_example ''origin'' target_example origin_example (Some c_example)
        fs_one req_example = (Responded w, fs_one, [CacheGet key_example])
      \<and> fmlookup (w_Header w) ''X-Cache'' = Some [''HIT'']"
    by blast
  from 1 2 3 b show ?thesis
    by blast
qed


end
